theory Spec2Isabelle
  imports Main
begin

unbundle bit_operations_syntax

section \<open>Strings and paths\<close>

text \<open>
  Python strings are modelled as byte strings (\<open>string\<close>, the UTF-8 encoding that
  \<^verbatim>\<open>dna_string.encode()\<close> produces). The only case conversion of the source is
  applied before a comparison with the ASCII suffixes \<^verbatim>\<open>.png\<close> and \<^verbatim>\<open>.gif\<close>, so lowering
  the ASCII letters is all that matters.
\<close>

definition lower_char :: "char \<Rightarrow> char" where
  "lower_char c =
     (if 65 \<le> (of_char c :: nat) \<and> (of_char c :: nat) \<le> 90
      then char_of (of_char c + (32 :: nat)) else c)"

definition str_lower :: "string \<Rightarrow> string" where
  "str_lower s = map lower_char s"

definition endswith :: "string \<Rightarrow> string \<Rightarrow> bool" where
  "endswith s suf = (length suf \<le> length s \<and> drop (length s - length suf) s = suf)"

text \<open>\<^verbatim>\<open>str.rfind(c)\<close>: the index of the last occurrence, or \<open>-1\<close>.\<close>

fun rfind_from :: "char \<Rightarrow> string \<Rightarrow> int \<Rightarrow> int \<Rightarrow> int" where
  "rfind_from c [] i found = found"
| "rfind_from c (x # xs) i found = rfind_from c xs (i + 1) (if x = c then i else found)"

definition rfind :: "char \<Rightarrow> string \<Rightarrow> int" where
  "rfind c s = rfind_from c s 0 (- 1)"

text \<open>
  \<^verbatim>\<open>os.path.splitext\<close> (POSIX): the extension starts at the last dot of the last path
  component, unless that component has only dots before it.
\<close>

definition splitext :: "string \<Rightarrow> string \<times> string" where
  "splitext p =
     (let sepIndex = rfind CHR ''/'' p; dotIndex = rfind CHR ''.'' p in
      if dotIndex > sepIndex
         \<and> list_ex (\<lambda>ch. ch \<noteq> CHR ''.'')
               (take (nat (dotIndex - (sepIndex + 1))) (drop (nat (sepIndex + 1)) p))
      then (take (nat dotIndex) p, drop (nat dotIndex) p)
      else (p, []))"

text \<open>\<^verbatim>\<open>os.path.join\<close> (POSIX) of two components.\<close>

definition path_join :: "string \<Rightarrow> string \<Rightarrow> string" where
  "path_join a b =
     (if b \<noteq> [] \<and> hd b = CHR ''/'' then b
      else if a = [] \<or> last a = CHR ''/'' then a @ b
      else a @ ''/'' @ b)"

text \<open>\<^verbatim>\<open>s.split('.')[-1]\<close>: what follows the last dot, the whole string when there is none.\<close>

definition after_last_dot :: "string \<Rightarrow> string" where
  "after_last_dot s = drop (nat (rfind CHR ''.'' s + 1)) s"

text \<open>\<^verbatim>\<open>str(n)\<close> for an integer.\<close>

definition digit_char :: "nat \<Rightarrow> char" where
  "digit_char n = ''0123456789'' ! n"

function str_nat :: "nat \<Rightarrow> string" where
  "str_nat n = (if n < 10 then [digit_char n] else str_nat (n div 10) @ [digit_char (n mod 10)])"
  by pat_completeness auto
termination
  by (relation "measure (\<lambda>n. n)") auto

declare str_nat.simps [simp del]

definition str_int :: "int \<Rightarrow> string" where
  "str_int i = (if i < 0 then CHR ''-'' # str_nat (nat (- i)) else str_nat (nat i))"

text \<open>\<^verbatim>\<open>sep.join(parts)\<close>.\<close>

fun join :: "string \<Rightarrow> string list \<Rightarrow> string" where
  "join sep [] = []"
| "join sep [x] = x"
| "join sep (x # y # ys) = x @ sep @ join sep (y # ys)"

section \<open>SHA-1\<close>

text \<open>
  \<^verbatim>\<open>hashlib.sha1(data).hexdigest()\<close>, after FIPS 180-4. A 32-bit word is an \<open>int\<close>
  in \<open>0 ..< 2 ^ 32\<close>; additions wrap around modulo \<open>2 ^ 32\<close> and rotations are written with
  multiplication and division. The message schedule is kept as a window of the last
  sixteen words.
\<close>

definition rotl :: "nat \<Rightarrow> int \<Rightarrow> int" where
  "rotl n x = (x * 2 ^ n) mod 4294967296 + x div 2 ^ (32 - n)"

definition add32 :: "int \<Rightarrow> int \<Rightarrow> int" where
  "add32 x y = (x + y) mod 4294967296"

definition not32 :: "int \<Rightarrow> int" where
  "not32 x = 4294967295 - x"

fun be_bytes :: "nat \<Rightarrow> int \<Rightarrow> int list" where
  "be_bytes 0 v = []"
| "be_bytes (Suc k) v = be_bytes k (v div 256) @ [v mod 256]"

definition sha1_pad :: "int list \<Rightarrow> int list" where
  "sha1_pad m =
     m @ [128] @ replicate ((119 - length m mod 64) mod 64) 0
       @ be_bytes (Suc (Suc (Suc (Suc (Suc (Suc (Suc (Suc 0)))))))) (8 * int (length m))"

fun words_of :: "int list \<Rightarrow> int list" where
  "words_of (a # b # c # d # r) = (((a * 256 + b) * 256 + c) * 256 + d) # words_of r"
| "words_of _ = []"

type_synonym sha1_state = "int \<times> int \<times> int \<times> int \<times> int"

definition fk :: "nat \<Rightarrow> int \<Rightarrow> int \<Rightarrow> int \<Rightarrow> int \<times> int" where
  "fk i b c d =
    (if i < 20 then ((b AND c) OR (not32 b AND d), 0x5A827999)
     else if i < 40 then (b XOR c XOR d, 0x6ED9EBA1)
     else if i < 60 then ((b AND c) OR (b AND d) OR (c AND d), 0x8F1BBCDC)
     else (b XOR c XOR d, 0xCA62C1D6))"

fun next_window :: "int list \<Rightarrow> int list" where
  "next_window [w0, w1, w2, w3, w4, w5, w6, w7, w8, w9, w10, w11, w12, w13, w14, w15] =
     [w1, w2, w3, w4, w5, w6, w7, w8, w9, w10, w11, w12, w13, w14, w15,
      rotl 1 (w13 XOR w8 XOR w2 XOR w0)]"
| "next_window ws = ws"

fun round_step :: "nat \<Rightarrow> int \<Rightarrow> sha1_state \<Rightarrow> sha1_state" where
  "round_step i w (a, b, c, d, e) =
     (add32 (add32 (add32 (add32 (rotl 5 a) (fst (fk i b c d))) e) (snd (fk i b c d))) w,
      a, rotl 30 b, c, d)"

function rounds :: "nat \<Rightarrow> int list \<Rightarrow> sha1_state \<Rightarrow> sha1_state" where
  "rounds i ws s =
     (if 80 \<le> i then s
      else rounds (i + 1) (next_window ws) (round_step i (hd ws) s))"
  by pat_completeness auto
termination
  by (relation "measure (\<lambda>(i, ws, s). 80 - i)") auto

declare rounds.simps [simp del]

fun add_state :: "sha1_state \<Rightarrow> sha1_state \<Rightarrow> sha1_state" where
  "add_state (h0, h1, h2, h3, h4) (a, b, c, d, e) =
     (add32 h0 a, add32 h1 b, add32 h2 c, add32 h3 d, add32 h4 e)"

definition compress :: "sha1_state \<Rightarrow> int list \<Rightarrow> sha1_state" where
  "compress h chunk = add_state h (rounds 0 (words_of chunk) h)"

function blocks :: "sha1_state \<Rightarrow> int list \<Rightarrow> sha1_state" where
  "blocks h m = (if m = [] then h else blocks (compress h (take 64 m)) (drop 64 m))"
  by pat_completeness auto
termination
  by (relation "measure (\<lambda>(h, m). length m)") auto

declare blocks.simps [simp del]

definition hexdigit :: "int \<Rightarrow> char" where
  "hexdigit n = ''0123456789abcdef'' ! nat n"

fun hex_int :: "nat \<Rightarrow> int \<Rightarrow> string" where
  "hex_int 0 v = []"
| "hex_int (Suc k) v = hex_int k (v div 16) @ [hexdigit (v mod 16)]"

definition hex32 :: "int \<Rightarrow> string" where
  "hex32 w = hex_int (Suc (Suc (Suc (Suc (Suc (Suc (Suc (Suc 0)))))))) w"

fun hex_state :: "sha1_state \<Rightarrow> string" where
  "hex_state (a, b, c, d, e) = hex32 a @ hex32 b @ hex32 c @ hex32 d @ hex32 e"

definition sha1_hexdigest :: "string \<Rightarrow> string" where
  "sha1_hexdigest s =
     hex_state (blocks (0x67452301, 0xEFCDAB89, 0x98BADCFE, 0x10325476, 0xC3D2E1F0)
                  (sha1_pad (map of_char s)))"

section \<open>Data model\<close>

text \<open>Python exceptions, as values.\<close>

datatype py_exn =
    ValueError string
  | TypeError string
  | IndexError string
  | KeyError string
  | OSError string

text \<open>
  The dictionary that \<^verbatim>\<open>_select_layer_file\<close> returns: keys \<^verbatim>\<open>path\<close>, \<^verbatim>\<open>type\<close> and
  \<^verbatim>\<open>filename\<close>.
\<close>

record layer_file =
  lf_path :: string
  lf_type :: string
  lf_filename :: string

text \<open>
  A Python \<^verbatim>\<open>dict\<close> iterates in insertion order, and assigning to a key that is already
  present keeps the key's position. The dictionary is an association list with distinct
  keys; \<open>map_of\<close> is \<^verbatim>\<open>dict.get\<close>.
\<close>

fun dict_set :: "('k \<times> 'v) list \<Rightarrow> 'k \<Rightarrow> 'v \<Rightarrow> ('k \<times> 'v) list" where
  "dict_set [] k v = [(k, v)]"
| "dict_set ((k', v') # d) k v =
     (if k' = k then (k, v) # d else (k', v') # dict_set d k v)"

type_synonym layers = "(string \<times> layer_file) list"

text \<open>
  An image file as PIL opens it. A file has at least one frame. \<open>fr_rgba\<close> is the result of
  \<^verbatim>\<open>frame.convert("RGBA")\<close>, which decodes the frame and may raise; \<open>fr_duration\<close> is
  \<^verbatim>\<open>info.get('duration')\<close> while the image object is positioned on that frame, and
  \<open>loop_count\<close> is \<^verbatim>\<open>info.get('loop')\<close>.
\<close>

record 'img frame =
  fr_rgba :: "py_exn + 'img"
  fr_duration :: "int option"

record 'img image_file =
  first_frame :: "'img frame"
  more_frames :: "'img frame list"
  loop_count :: "int option"

definition all_frames :: "'img image_file \<Rightarrow> 'img frame list" where
  "all_frames im = first_frame im # more_frames im"

text \<open>
  What is handed to \<^verbatim>\<open>Image.save\<close>: one flattened image, or for \<^verbatim>\<open>save_all=True\<close> the
  frame list \<^verbatim>\<open>[frames[0]] + append_images\<close> with the keyword arguments \<^verbatim>\<open>duration\<close>
  and \<^verbatim>\<open>loop\<close>. A single integer \<^verbatim>\<open>duration\<close> is the display time of every frame.
\<close>

datatype 'img artifact =
    PngFile 'img
  | GifFile (gif_frames: "'img list") (gif_duration: int) (gif_loop: int)

text \<open>The metadata dictionary of one edition.\<close>

record metadata =
  md_name :: string
  md_description :: string
  md_image :: string
  md_dna :: string
  md_edition :: int
  md_date :: int
  md_attributes :: "(string \<times> string) list"
  md_compiler :: string

text \<open>
  \<^verbatim>\<open>config.json\<close>. A key that the source reads with \<^verbatim>\<open>self.config[...]\<close> is optional
  here; reading a missing one raises \<^verbatim>\<open>KeyError\<close>.
\<close>

record settings =
  total_characters :: "int option"
  max_generation_attempts :: "int option"

record config =
  cfg_base_layers_directory :: "string option"
  cfg_output_directory :: "string option"
  cfg_collection_name :: "string option"
  cfg_collection_description :: "string option"
  cfg_ipfs_base_uri :: "string option"
  cfg_compiler :: "string option"
  cfg_layers_order :: "string list option"
  cfg_generation_settings :: "settings option"

definition base_dir :: "config \<Rightarrow> string" where
  "base_dir cfg = (case cfg_base_layers_directory cfg of None \<Rightarrow> ''nft_layers'' | Some d \<Rightarrow> d)"

definition output_dir :: "config \<Rightarrow> string" where
  "output_dir cfg = (case cfg_output_directory cfg of None \<Rightarrow> ''output'' | Some d \<Rightarrow> d)"

definition config_get :: "string \<Rightarrow> 'a option \<Rightarrow> py_exn + 'a" where
  "config_get key v = (case v of None \<Rightarrow> Inl (KeyError key) | Some x \<Rightarrow> Inr x)"

text \<open>
  The surroundings of a run, which the generator reads and never changes: the
  configuration, the layer directories, the decoded image files, the sequence of random
  draws, the clock, and PIL's pixel operations (\<open>img_new size\<close> is a transparent RGBA
  canvas, \<open>img_paste dst src\<close> is \<^verbatim>\<open>dst.paste(src, (0, 0))\<close> and \<open>img_paste_mask dst src\<close>
  is \<^verbatim>\<open>dst.paste(src, (0, 0), src)\<close>).
\<close>

record 'img env =
  config :: config
  path_exists :: "string \<Rightarrow> bool"
  listdir :: "string \<Rightarrow> py_exn + string list"
  image_open :: "string \<Rightarrow> py_exn + 'img image_file"
  rand :: "nat \<Rightarrow> nat"
  now_ms :: "nat \<Rightarrow> int"
  img_size :: "'img \<Rightarrow> nat \<times> nat"
  img_new :: "nat \<times> nat \<Rightarrow> 'img"
  img_paste :: "'img \<Rightarrow> 'img \<Rightarrow> 'img"
  img_paste_mask :: "'img \<Rightarrow> 'img \<Rightarrow> 'img"

text \<open>
  What a run changes: the registry \<^verbatim>\<open>self.generated_dnas\<close>, the number of random draws
  and clock readings taken so far, the files written (newest first) and the lines printed.
\<close>

record 'img world =
  generated_dnas :: "string set"
  rand_pos :: nat
  clock_pos :: nat
  images_written :: "(string \<times> 'img artifact) list"
  json_written :: "(string \<times> metadata) list"
  stdout :: "string list"

section \<open>Layer selection and fingerprint\<close>

definition eligible :: "string \<Rightarrow> bool" where
  "eligible f = (endswith (str_lower f) ''.png'' \<or> endswith (str_lower f) ''.gif'')"

definition select_layer_file ::
  "'img env \<Rightarrow> string \<Rightarrow> 'img world \<Rightarrow> (py_exn + layer_file option) \<times> 'img world" where
  "select_layer_file env layer_name s =
     (let layer_dir = path_join (base_dir (config env)) layer_name in
      if \<not> path_exists env layer_dir then (Inr None, s)
      else
        case listdir env layer_dir of
          Inl e \<Rightarrow> (Inl e, s)
        | Inr entries \<Rightarrow>
            (let layer_files = filter eligible entries in
             if layer_files = [] then (Inr None, s)
             else
               let selected_file = layer_files ! (rand env (rand_pos s) mod length layer_files);
                   file_path = path_join layer_dir selected_file;
                   file_type = drop 1 (str_lower (snd (splitext selected_file)))
               in (Inr (Some \<lparr>lf_path = file_path, lf_type = file_type,
                                lf_filename = selected_file\<rparr>),
                   s\<lparr>rand_pos := rand_pos s + 1\<rparr>)))"

text \<open>
  Layer and file names are byte strings that decode as UTF-8, so that
  \<^verbatim>\<open>dna_string.encode()\<close> yields them as they are. A name with bytes that do not decode
  reaches Python with lone surrogates, for which \<^verbatim>\<open>encode()\<close> raises
  \<^verbatim>\<open>UnicodeEncodeError\<close>; such names are outside this model.
\<close>

definition dna_string :: "layers \<Rightarrow> string" where
  "dna_string layers = join ''|'' (map (\<lambda>(k, v). k @ '':'' @ lf_path v) layers)"

definition generate_dna_hash :: "layers \<Rightarrow> string" where
  "generate_dna_hash layers = sha1_hexdigest (dna_string layers)"

text \<open>The selection loop at the head of each attempt of \<^verbatim>\<open>generate_character\<close>.\<close>

fun select_layers ::
  "'img env \<Rightarrow> string list \<Rightarrow> layers \<Rightarrow> 'img world \<Rightarrow> (py_exn + layers) \<times> 'img world" where
  "select_layers env [] selected_layers s = (Inr selected_layers, s)"
| "select_layers env (layer # rest) selected_layers s =
     (case select_layer_file env layer s of
        (Inl e, s') \<Rightarrow> (Inl e, s')
      | (Inr None, s') \<Rightarrow> select_layers env rest selected_layers s'
      | (Inr (Some layer_file), s') \<Rightarrow>
          select_layers env rest (dict_set selected_layers layer layer_file) s')"

section \<open>Compositing\<close>

text \<open>\<^verbatim>\<open>Image.open(p).convert("RGBA")\<close>: the first frame of the file, decoded.\<close>

definition open_rgba :: "'img env \<Rightarrow> string \<Rightarrow> py_exn + 'img" where
  "open_rgba env p =
     (case image_open env p of Inl e \<Rightarrow> Inl e | Inr im \<Rightarrow> fr_rgba (first_frame im))"

definition skipped :: "string \<Rightarrow> layer_file \<Rightarrow> bool" where
  "skipped layer_name layer_info = (layer_name = ''Background'' \<or> lf_type layer_info = ''gif'')"

definition images_path :: "'img env \<Rightarrow> string \<Rightarrow> string" where
  "images_path env file = path_join (path_join (output_dir (config env)) ''images'') file"

text \<open>The loop of the static path that pastes every other static layer.\<close>

fun paste_static_layers :: "'img env \<Rightarrow> layers \<Rightarrow> 'img \<Rightarrow> py_exn + 'img" where
  "paste_static_layers env [] combined_image = Inr combined_image"
| "paste_static_layers env ((layer_name, layer_info) # rest) combined_image =
     (if skipped layer_name layer_info then paste_static_layers env rest combined_image
      else
        case open_rgba env (lf_path layer_info) of
          Inl e \<Rightarrow> Inl e
        | Inr layer_image \<Rightarrow>
            paste_static_layers env rest (img_paste_mask env combined_image layer_image))"

definition generate_png_character ::
  "'img env \<Rightarrow> layers \<Rightarrow> int \<Rightarrow> 'img world \<Rightarrow> (py_exn + string) \<times> 'img world" where
  "generate_png_character env selected_layers edition s =
     (case map_of selected_layers ''Background'' of
        None \<Rightarrow> (Inl (TypeError ''NoneType object is not subscriptable''), s)
      | Some background \<Rightarrow>
          (case open_rgba env (lf_path background) of
             Inl e \<Rightarrow> (Inl e, s)
           | Inr background_image \<Rightarrow>
               (case paste_static_layers env selected_layers
                       (img_paste env (img_new env (img_size env background_image))
                          background_image) of
                  Inl e \<Rightarrow> (Inl e, s)
                | Inr combined_image \<Rightarrow>
                    (let output_path = images_path env (str_int edition @ ''.png'') in
                     (Inr output_path,
                      s\<lparr>images_written := (output_path, PngFile combined_image) # images_written s,
                        stdout := stdout s @ [''Generated character PNG: '' @ output_path]\<rparr>)))))"

text \<open>The loop of the animated path that loads the static layers into a dictionary.\<close>

fun load_static_layers ::
  "'img env \<Rightarrow> layers \<Rightarrow> (string \<times> 'img) list \<Rightarrow> py_exn + (string \<times> 'img) list" where
  "load_static_layers env [] static_layers = Inr static_layers"
| "load_static_layers env ((layer_name, layer_info) # rest) static_layers =
     (if skipped layer_name layer_info then load_static_layers env rest static_layers
      else
        case open_rgba env (lf_path layer_info) of
          Inl e \<Rightarrow> Inl e
        | Inr layer_image \<Rightarrow>
            load_static_layers env rest (dict_set static_layers layer_name layer_image))"

text \<open>One pass of the frame loop: the frame, with every static layer pasted on it.\<close>

definition combine_frame :: "'img env \<Rightarrow> 'img list \<Rightarrow> 'img \<Rightarrow> 'img" where
  "combine_frame env overlays frame =
     foldl (img_paste_mask env) (img_paste env (img_new env (img_size env frame)) frame) overlays"

fun composite_frames :: "'img env \<Rightarrow> 'img list \<Rightarrow> 'img frame list \<Rightarrow> py_exn + 'img list" where
  "composite_frames env overlays [] = Inr []"
| "composite_frames env overlays (f # fs) =
     (case fr_rgba f of
        Inl e \<Rightarrow> Inl e
      | Inr frame \<Rightarrow>
          (case composite_frames env overlays fs of
             Inl e \<Rightarrow> Inl e
           | Inr frames \<Rightarrow> Inr (combine_frame env overlays frame # frames)))"

text \<open>
  When the frame loop ends the image object rests on the last frame, so
  \<^verbatim>\<open>background_gif.info.get('duration', 100)\<close> reads that frame's entry.
\<close>

definition info_duration :: "'img image_file \<Rightarrow> int" where
  "info_duration im = (case fr_duration (last (all_frames im)) of None \<Rightarrow> 100 | Some d \<Rightarrow> d)"

definition generate_gif_character ::
  "'img env \<Rightarrow> layers \<Rightarrow> int \<Rightarrow> 'img world \<Rightarrow> (py_exn + string) \<times> 'img world" where
  "generate_gif_character env selected_layers edition s =
     (case map_of selected_layers ''Background'' of
        None \<Rightarrow> (Inl (TypeError ''NoneType object is not subscriptable''), s)
      | Some background \<Rightarrow>
          (case image_open env (lf_path background) of
             Inl e \<Rightarrow> (Inl e, s)
           | Inr background_gif \<Rightarrow>
               (case load_static_layers env selected_layers [] of
                  Inl e \<Rightarrow> (Inl e, s)
                | Inr static_layers \<Rightarrow>
                    (case composite_frames env (map snd static_layers) (all_frames background_gif) of
                       Inl e \<Rightarrow> (Inl e, s)
                     | Inr [] \<Rightarrow> (Inl (IndexError ''list index out of range''), s)
                     | Inr (frame0 # append_images) \<Rightarrow>
                         (let output_path = images_path env (str_int edition @ ''.gif'') in
                          (Inr output_path,
                           s\<lparr>images_written :=
                               (output_path,
                                GifFile (frame0 # append_images) (info_duration background_gif) 0)
                               # images_written s,
                             stdout := stdout s @ [''Generated character GIF: '' @ output_path]\<rparr>))))))"

section \<open>One edition\<close>

text \<open>
  The body of the branch \<^verbatim>\<open>if dna not in self.generated_dnas\<close>, after the insertion:
  the choice of the compositing path, the metadata and its JSON file.
\<close>

definition animated_background :: "layers \<Rightarrow> bool" where
  "animated_background selected_layers =
     (case map_of selected_layers ''Background'' of
        None \<Rightarrow> False
      | Some background \<Rightarrow> lf_type background = ''gif'')"

definition composite ::
  "'img env \<Rightarrow> layers \<Rightarrow> int \<Rightarrow> 'img world \<Rightarrow> (py_exn + string) \<times> 'img world" where
  "composite env selected_layers edition s =
     (if animated_background selected_layers
      then generate_gif_character env selected_layers edition s
      else generate_png_character env selected_layers edition s)"

definition attributes_of :: "string list \<Rightarrow> layers \<Rightarrow> (string \<times> string) list" where
  "attributes_of layers_order selected_layers =
     List.map_filter
       (\<lambda>layer. case map_of selected_layers layer of
                   None \<Rightarrow> None
                 | Some layer_file \<Rightarrow> Some (layer, fst (splitext (lf_filename layer_file))))
       layers_order"

definition write_metadata ::
  "'img env \<Rightarrow> string list \<Rightarrow> layers \<Rightarrow> string \<Rightarrow> int \<Rightarrow> string \<Rightarrow> 'img world
     \<Rightarrow> (py_exn + metadata) \<times> 'img world" where
  "write_metadata env layers_order selected_layers dna edition image_path s =
     (case config_get ''collection_name'' (cfg_collection_name (config env)) of
        Inl e \<Rightarrow> (Inl e, s)
      | Inr collection_name \<Rightarrow>
     (case config_get ''collection_description'' (cfg_collection_description (config env)) of
        Inl e \<Rightarrow> (Inl e, s)
      | Inr collection_description \<Rightarrow>
     (case config_get ''ipfs_base_uri'' (cfg_ipfs_base_uri (config env)) of
        Inl e \<Rightarrow> (Inl e, s)
      | Inr ipfs_base_uri \<Rightarrow>
     (case config_get ''compiler'' (cfg_compiler (config env)) of
        Inl e \<Rightarrow> (Inl e, s\<lparr>clock_pos := clock_pos s + 1\<rparr>)
      | Inr compiler \<Rightarrow>
          (let metadata =
                 \<lparr>md_name = collection_name @ '' #'' @ str_int edition,
                  md_description = collection_description,
                  md_image = ipfs_base_uri @ str_int edition @ ''.'' @ after_last_dot image_path,
                  md_dna = dna,
                  md_edition = edition,
                  md_date = now_ms env (clock_pos s),
                  md_attributes = attributes_of layers_order selected_layers,
                  md_compiler = compiler\<rparr>;
               metadata_path =
                 path_join (path_join (output_dir (config env)) ''json'') (str_int edition @ ''.json'')
           in (Inr metadata,
               s\<lparr>clock_pos := clock_pos s + 1,
                 json_written := (metadata_path, metadata) # json_written s\<rparr>))))))"

definition produce ::
  "'img env \<Rightarrow> string list \<Rightarrow> layers \<Rightarrow> string \<Rightarrow> int \<Rightarrow> 'img world
     \<Rightarrow> (py_exn + metadata) \<times> 'img world" where
  "produce env layers_order selected_layers dna edition s =
     (case composite env selected_layers edition s of
        (Inl e, s') \<Rightarrow> (Inl e, s')
      | (Inr image_path, s') \<Rightarrow>
          write_metadata env layers_order selected_layers dna edition image_path s')"

definition exhausted :: "int \<Rightarrow> py_exn" where
  "exhausted max_attempts =
     ValueError (''Could not generate a unique character after '' @ str_int max_attempts
                 @ '' attempts'')"

text \<open>
  The loop \<^verbatim>\<open>for attempt in range(max_attempts)\<close>, by the number of attempts left, and
  the \<^verbatim>\<open>raise\<close> that follows it.
\<close>

fun attempts ::
  "'img env \<Rightarrow> string list \<Rightarrow> int \<Rightarrow> int \<Rightarrow> nat \<Rightarrow> 'img world
     \<Rightarrow> (py_exn + metadata) \<times> 'img world" where
  "attempts env layers_order edition max_attempts 0 s = (Inl (exhausted max_attempts), s)"
| "attempts env layers_order edition max_attempts (Suc n) s =
     (case select_layers env layers_order [] s of
        (Inl e, s') \<Rightarrow> (Inl e, s')
      | (Inr selected_layers, s') \<Rightarrow>
          (let dna = generate_dna_hash selected_layers in
           if dna \<notin> generated_dnas s'
           then produce env layers_order selected_layers dna edition
                  (s'\<lparr>generated_dnas := insert dna (generated_dnas s')\<rparr>)
           else attempts env layers_order edition max_attempts n s'))"

definition generate_character ::
  "'img env \<Rightarrow> string list \<Rightarrow> int \<Rightarrow> int \<Rightarrow> 'img world \<Rightarrow> (py_exn + metadata) \<times> 'img world" where
  "generate_character env layers_order edition max_attempts s =
     attempts env layers_order edition max_attempts (nat max_attempts) s"

section \<open>The collection\<close>

definition say :: "string \<Rightarrow> 'img world \<Rightarrow> 'img world" where
  "say line s = s\<lparr>stdout := stdout s @ [line]\<rparr>"

text \<open>The loop \<^verbatim>\<open>for edition in range(1, total_characters + 1)\<close>, by the editions left.\<close>

fun editions ::
  "'img env \<Rightarrow> string list \<Rightarrow> int \<Rightarrow> int list \<Rightarrow> metadata list \<Rightarrow> 'img world
     \<Rightarrow> (py_exn + metadata list) \<times> 'img world" where
  "editions env layers_order max_attempts [] generated_characters s =
     (Inr generated_characters, s)"
| "editions env layers_order max_attempts (edition # rest) generated_characters s =
     (case generate_character env layers_order edition max_attempts s of
        (Inr character_metadata, s') \<Rightarrow>
          editions env layers_order max_attempts rest
            (generated_characters @ [character_metadata])
            (say (''Generated character #'' @ str_int edition) s')
      | (Inl (ValueError msg), s') \<Rightarrow>
          (Inr generated_characters,
           say (''Error generating character #'' @ str_int edition @ '': '' @ msg) s')
      | (Inl e, s') \<Rightarrow> (Inl e, s'))"

definition generate_collection ::
  "'img env \<Rightarrow> 'img world \<Rightarrow> (py_exn + metadata list) \<times> 'img world" where
  "generate_collection env s =
     (let layers_order = (case cfg_layers_order (config env) of None \<Rightarrow> [] | Some l \<Rightarrow> l) in
      case config_get ''generation_settings'' (cfg_generation_settings (config env)) of
        Inl e \<Rightarrow> (Inl e, s)
      | Inr generation_settings \<Rightarrow>
     (case config_get ''total_characters'' (total_characters generation_settings) of
        Inl e \<Rightarrow> (Inl e, s)
      | Inr total_chars \<Rightarrow>
     (case config_get ''max_generation_attempts'' (max_generation_attempts generation_settings) of
        Inl e \<Rightarrow> (Inl e, s)
      | Inr max_attempts \<Rightarrow> editions env layers_order max_attempts [1..total_chars] [] s)))"

section \<open>Notions used in the statements\<close>

text \<open>A layer is present when its directory exists and lists at least one eligible file.\<close>

definition layer_dir_of :: "'img env \<Rightarrow> string \<Rightarrow> string" where
  "layer_dir_of env layer_name = path_join (base_dir (config env)) layer_name"

definition present :: "'img env \<Rightarrow> string \<Rightarrow> bool" where
  "present env layer_name =
     (path_exists env (layer_dir_of env layer_name) \<and>
      (case listdir env (layer_dir_of env layer_name) of
         Inl e \<Rightarrow> False
       | Inr entries \<Rightarrow> filter eligible entries \<noteq> []))"

text \<open>The state after one more full selection over the configured layers.\<close>

definition reselect :: "'img env \<Rightarrow> string list \<Rightarrow> 'img world \<Rightarrow> 'img world" where
  "reselect env layers_order s = snd (select_layers env layers_order [] s)"

text \<open>
  Each of the next \<open>n\<close> selections, made one after the other, succeeds and has a
  fingerprint that the registry already holds.
\<close>

fun all_seen :: "'img env \<Rightarrow> string list \<Rightarrow> nat \<Rightarrow> 'img world \<Rightarrow> bool" where
  "all_seen env layers_order 0 s = True"
| "all_seen env layers_order (Suc n) s =
     (case select_layers env layers_order [] s of
        (Inl e, s') \<Rightarrow> False
      | (Inr selected_layers, s') \<Rightarrow>
          generate_dna_hash selected_layers \<in> generated_dnas s'
          \<and> all_seen env layers_order n s')"

text \<open>The selected static layers that are pasted over the background, in dictionary order.\<close>

definition overlay_layers :: "layers \<Rightarrow> layers" where
  "overlay_layers selected_layers =
     filter (\<lambda>(layer_name, layer_info). \<not> skipped layer_name layer_info) selected_layers"

text \<open>
  An attempt for \<open>edition\<close> that was registered and then failed: a selection made while the
  registry was \<open>registry\<close> had the new fingerprint \<open>dna\<close>, and what follows the insertion of
  \<open>dna\<close> (compositing and metadata) raised \<open>e\<close> and left the world \<open>s'\<close>.
\<close>

definition failed_attempt ::
  "'img env \<Rightarrow> string list \<Rightarrow> int \<Rightarrow> string set \<Rightarrow> string \<Rightarrow> py_exn \<Rightarrow> 'img world \<Rightarrow> bool" where
  "failed_attempt env layers_order edition registry dna e s' =
     (\<exists>selected_layers s s1.
        select_layers env layers_order [] s = (Inr selected_layers, s1)
        \<and> generated_dnas s1 = registry
        \<and> dna = generate_dna_hash selected_layers
        \<and> dna \<notin> registry
        \<and> produce env layers_order selected_layers dna edition
              (s1\<lparr>generated_dnas := insert dna (generated_dnas s1)\<rparr>) = (Inl e, s'))"

text \<open>
  The order in which the selection loop stores the layers: each present layer of the
  configured order at its first occurrence, after the keys \<open>ks\<close> stored before.
\<close>

fun stored_order :: "'img env \<Rightarrow> string list \<Rightarrow> string list \<Rightarrow> string list" where
  "stored_order env [] ks = ks"
| "stored_order env (layer # rest) ks =
     stored_order env rest (if present env layer \<and> layer \<notin> set ks then ks @ [layer] else ks)"

section \<open>Example catalogues\<close>

text \<open>
  In the examples a picture is the list of the things drawn on it, bottom first: pasting
  without a mask replaces the canvas, pasting with a mask draws on top.
\<close>

type_synonym pic = "string list"

definition still :: "string \<Rightarrow> pic image_file" where
  "still n =
     \<lparr>first_frame = \<lparr>fr_rgba = Inr [n], fr_duration = None\<rparr>, more_frames = [],
      loop_count = None\<rparr>"

definition demo_config :: config where
  "demo_config =
     \<lparr>cfg_base_layers_directory = Some ''l'', cfg_output_directory = Some ''o'',
      cfg_collection_name = Some ''Cats'', cfg_collection_description = Some ''demo'',
      cfg_ipfs_base_uri = Some ''ipfs://x/'', cfg_compiler = Some ''hand'',
      cfg_layers_order = Some [''Background'', ''Body'', ''Eyes''],
      cfg_generation_settings =
        Some \<lparr>total_characters = Some 3, max_generation_attempts = Some 2\<rparr>\<rparr>"

text \<open>
  One file for \<^verbatim>\<open>Background\<close>, one eligible file for \<^verbatim>\<open>Body\<close>, and an \<^verbatim>\<open>Eyes\<close>
  directory without image files: a single combination.
\<close>

definition demo_env :: "pic env" where
  "demo_env =
     \<lparr>config = demo_config,
      path_exists = (\<lambda>p. p = ''l/Background'' \<or> p = ''l/Body'' \<or> p = ''l/Eyes''),
      listdir = (\<lambda>p. if p = ''l/Background'' then Inr [''sky.png'']
                     else if p = ''l/Body'' then Inr [''notes.txt'', ''cat.png'']
                     else if p = ''l/Eyes'' then Inr [''readme.md'']
                     else Inl (OSError ''No such file or directory'')),
      image_open = (\<lambda>p. if p = ''l/Background/sky.png'' then Inr (still ''sky'')
                        else if p = ''l/Body/cat.png'' then Inr (still ''cat'')
                        else Inl (OSError ''cannot identify image file'')),
      rand = (\<lambda>i. i),
      now_ms = (\<lambda>i. 1700000000000 + int i),
      img_size = (\<lambda>i. (1, 1)),
      img_new = (\<lambda>sz. []),
      img_paste = (\<lambda>dst src. src),
      img_paste_mask = (\<lambda>dst src. dst @ src)\<rparr>"

definition world0 :: "pic world" where
  "world0 =
     \<lparr>generated_dnas = {}, rand_pos = 0, clock_pos = 0, images_written = [],
      json_written = [], stdout = []\<rparr>"

definition sky_file :: layer_file where
  "sky_file = \<lparr>lf_path = ''l/Background/sky.png'', lf_type = ''png'', lf_filename = ''sky.png''\<rparr>"

definition cat_file :: layer_file where
  "cat_file = \<lparr>lf_path = ''l/Body/cat.png'', lf_type = ''png'', lf_filename = ''cat.png''\<rparr>"

definition demo_selection :: layers where
  "demo_selection = [(''Background'', sky_file), (''Body'', cat_file)]"

text \<open>
  A second background file that PIL refuses with a \<^verbatim>\<open>ValueError\<close>; the third random
  draw picks it.
\<close>

definition big_file :: layer_file where
  "big_file = \<lparr>lf_path = ''l/Background/big.png'', lf_type = ''png'', lf_filename = ''big.png''\<rparr>"

definition broken_env :: "pic env" where
  "broken_env =
     demo_env
       \<lparr>listdir := (\<lambda>p. if p = ''l/Background'' then Inr [''sky.png'', ''big.png'']
                        else listdir demo_env p),
        image_open := (\<lambda>p. if p = ''l/Background/big.png''
                           then Inl (ValueError ''Decompressed Data Too Large'')
                           else image_open demo_env p),
        rand := (\<lambda>i. if i < 2 then 0 else 1)\<rparr>"

text \<open>
  An animated background of five frames with their own durations and a loop count of
  three, and two static overlays.
\<close>

definition wave :: "pic image_file" where
  "wave =
     \<lparr>first_frame = \<lparr>fr_rgba = Inr [''w0''], fr_duration = Some 40\<rparr>,
      more_frames =
        [\<lparr>fr_rgba = Inr [''w1''], fr_duration = Some 40\<rparr>,
         \<lparr>fr_rgba = Inr [''w2''], fr_duration = Some 120\<rparr>,
         \<lparr>fr_rgba = Inr [''w3''], fr_duration = Some 40\<rparr>,
         \<lparr>fr_rgba = Inr [''w4''], fr_duration = Some 80\<rparr>],
      loop_count = Some 3\<rparr>"

definition gif_env :: "pic env" where
  "gif_env =
     demo_env
       \<lparr>listdir := (\<lambda>p. if p = ''l/Background'' then Inr [''wave.gif'']
                        else if p = ''l/Eyes'' then Inr [''dot.png'']
                        else listdir demo_env p),
        image_open := (\<lambda>p. if p = ''l/Background/wave.gif'' then Inr wave
                           else if p = ''l/Eyes/dot.png'' then Inr (still ''dot'')
                           else image_open demo_env p)\<rparr>"

definition wave_file :: layer_file where
  "wave_file = \<lparr>lf_path = ''l/Background/wave.gif'', lf_type = ''gif'', lf_filename = ''wave.gif''\<rparr>"

definition dot_file :: layer_file where
  "dot_file = \<lparr>lf_path = ''l/Eyes/dot.png'', lf_type = ''png'', lf_filename = ''dot.png''\<rparr>"

definition gif_selection :: layers where
  "gif_selection = [(''Background'', wave_file), (''Body'', cat_file), (''Eyes'', dot_file)]"

text \<open>The selection with the refused file, and worlds whose registry is not empty.\<close>

definition big_selection :: layers where
  "big_selection = [(''Background'', big_file), (''Body'', cat_file)]"

definition seen_world :: "pic world" where
  "seen_world = world0\<lparr>generated_dnas := {generate_dna_hash demo_selection}\<rparr>"

definition demo_metadata :: metadata where
  "demo_metadata =
     \<lparr>md_name = ''Cats #1'', md_description = ''demo'', md_image = ''ipfs://x/1.png'',
      md_dna = generate_dna_hash demo_selection, md_edition = 1, md_date = 1700000000000,
      md_attributes = [(''Background'', ''sky''), (''Body'', ''cat'')],
      md_compiler = ''hand''\<rparr>"

definition after_first :: "pic world" where
  "after_first =
     \<lparr>generated_dnas = {generate_dna_hash demo_selection}, rand_pos = 2, clock_pos = 1,
      images_written = [(''o/images/1.png'', PngFile [''sky'', ''cat''])],
      json_written = [(''o/json/1.json'', demo_metadata)],
      stdout = [''Generated character PNG: o/images/1.png'', ''Generated character #1'']\<rparr>"

definition single_env :: "pic env" where
  "single_env =
     demo_env
       \<lparr>config :=
          demo_config
            \<lparr>cfg_generation_settings :=
               Some \<lparr>total_characters = Some 1, max_generation_attempts = Some 2\<rparr>\<rparr>\<rparr>"

definition after_refusal :: "pic world" where
  "after_refusal =
     \<lparr>generated_dnas = {generate_dna_hash big_selection}, rand_pos = 4, clock_pos = 0,
      images_written = [], json_written = [], stdout = []\<rparr>"

definition third_metadata :: metadata where
  "third_metadata =
     demo_metadata\<lparr>md_name := ''Cats #3'', md_image := ''ipfs://x/3.png'', md_edition := 3\<rparr>"

definition after_third :: "pic world" where
  "after_third =
     \<lparr>generated_dnas = {generate_dna_hash demo_selection, generate_dna_hash big_selection},
      rand_pos = 6, clock_pos = 1,
      images_written = [(''o/images/3.png'', PngFile [''sky'', ''cat''])],
      json_written = [(''o/json/3.json'', third_metadata)],
      stdout = [''Generated character PNG: o/images/3.png'']\<rparr>"

definition after_broken_run :: "pic world" where
  "after_broken_run =
     after_first
       \<lparr>generated_dnas := {generate_dna_hash demo_selection, generate_dna_hash big_selection},
        rand_pos := 4,
        stdout := stdout after_first
          @ [''Error generating character #2: Decompressed Data Too Large'']\<rparr>"

text \<open>
  Two backgrounds that both open, two editions requested; and a world whose registry
  already holds a fingerprint.
\<close>

definition sea_file :: layer_file where
  "sea_file = \<lparr>lf_path = ''l/Background/sea.png'', lf_type = ''png'', lf_filename = ''sea.png''\<rparr>"

definition sea_selection :: layers where
  "sea_selection = [(''Background'', sea_file), (''Body'', cat_file)]"

definition twin_env :: "pic env" where
  "twin_env =
     demo_env
       \<lparr>config :=
          demo_config
            \<lparr>cfg_generation_settings :=
               Some \<lparr>total_characters = Some 2, max_generation_attempts = Some 2\<rparr>\<rparr>,
        listdir := (\<lambda>p. if p = ''l/Background'' then Inr [''sky.png'', ''sea.png'']
                        else listdir demo_env p),
        image_open := (\<lambda>p. if p = ''l/Background/sea.png'' then Inr (still ''sea'')
                           else image_open demo_env p),
        rand := (\<lambda>i. if i < 2 then 0 else 1)\<rparr>"

definition second_metadata :: metadata where
  "second_metadata =
     \<lparr>md_name = ''Cats #2'', md_description = ''demo'', md_image = ''ipfs://x/2.png'',
      md_dna = generate_dna_hash sea_selection, md_edition = 2, md_date = 1700000000001,
      md_attributes = [(''Background'', ''sea''), (''Body'', ''cat'')],
      md_compiler = ''hand''\<rparr>"

definition after_second :: "pic world" where
  "after_second =
     \<lparr>generated_dnas = {generate_dna_hash demo_selection, generate_dna_hash sea_selection},
      rand_pos = 4, clock_pos = 2,
      images_written = [(''o/images/2.png'', PngFile [''sea'', ''cat'']),
                        (''o/images/1.png'', PngFile [''sky'', ''cat''])],
      json_written = [(''o/json/2.json'', second_metadata), (''o/json/1.json'', demo_metadata)],
      stdout = [''Generated character PNG: o/images/1.png'', ''Generated character #1'',
                ''Generated character PNG: o/images/2.png'', ''Generated character #2'']\<rparr>"

definition seeded_world :: "pic world" where
  "seeded_world = world0\<lparr>generated_dnas := {generate_dna_hash big_selection}\<rparr>"

text \<open>
  Two layers \<^verbatim>\<open>A\<close> and \<^verbatim>\<open>B\<close> with one file each, selected in either configured order;
  and the world that the first edition of the single combination leaves.
\<close>

definition a_file :: layer_file where
  "a_file = \<lparr>lf_path = ''l/A/a.png'', lf_type = ''png'', lf_filename = ''a.png''\<rparr>"

definition b_file :: layer_file where
  "b_file = \<lparr>lf_path = ''l/B/b.png'', lf_type = ''png'', lf_filename = ''b.png''\<rparr>"

definition ab_selection :: layers where
  "ab_selection = [(''A'', a_file), (''B'', b_file)]"

definition ba_selection :: layers where
  "ba_selection = [(''B'', b_file), (''A'', a_file)]"

definition ab_env :: "pic env" where
  "ab_env =
     demo_env
       \<lparr>path_exists := (\<lambda>p. p = ''l/A'' \<or> p = ''l/B''),
        listdir := (\<lambda>p. if p = ''l/A'' then Inr [''a.png'']
                        else if p = ''l/B'' then Inr [''b.png'']
                        else Inl (OSError ''No such file or directory''))\<rparr>"

definition first_character :: "pic world" where
  "first_character = after_first\<lparr>stdout := [''Generated character PNG: o/images/1.png'']\<rparr>"

section \<open>Evaluation and frame lemmas\<close>

lemmas path_defs = path_join_def images_path_def output_dir_def base_dir_def layer_dir_of_def
  str_int_def str_nat.simps digit_char_def after_last_dot_def rfind_def splitext_def
  eligible_def endswith_def str_lower_def lower_char_def Let_def

lemmas demo_defs = demo_env_def demo_config_def world0_def still_def sky_file_def cat_file_def
  demo_selection_def broken_env_def big_file_def gif_env_def wave_def wave_file_def dot_file_def
  gif_selection_def big_selection_def seen_world_def

lemma select_layer_file_registry:
  "select_layer_file env layer_name s = (r, s') \<Longrightarrow> generated_dnas s' = generated_dnas s"
  by (auto simp: select_layer_file_def Let_def split: if_splits sum.splits)

lemma select_layers_registry:
  "select_layers env layers_order acc s = (r, s') \<Longrightarrow> generated_dnas s' = generated_dnas s"
proof (induction layers_order arbitrary: acc s)
  case Nil
  then show ?case by simp
next
  case (Cons layer rest)
  obtain r1 s1 where sel: "select_layer_file env layer s = (r1, s1)"
    by (cases "select_layer_file env layer s")
  have reg: "generated_dnas s1 = generated_dnas s"
    using sel by (rule select_layer_file_registry)
  show ?case
  proof (cases r1)
    case (Inl e)
    with Cons.prems sel reg show ?thesis by simp
  next
    case (Inr choice)
    show ?thesis
    proof (cases choice)
      case None
      with Cons.prems sel Inr have "select_layers env rest acc s1 = (r, s')" by simp
      from Cons.IH[OF this] reg show ?thesis by simp
    next
      case (Some layer_file)
      with Cons.prems sel Inr
      have "select_layers env rest (dict_set acc layer layer_file) s1 = (r, s')" by simp
      from Cons.IH[OF this] reg show ?thesis by simp
    qed
  qed
qed

lemma generate_png_character_registry:
  "generate_png_character env selected_layers edition s = (r, s')
     \<Longrightarrow> generated_dnas s' = generated_dnas s"
  by (auto simp: generate_png_character_def Let_def split: option.splits sum.splits)

lemma generate_gif_character_registry:
  "generate_gif_character env selected_layers edition s = (r, s')
     \<Longrightarrow> generated_dnas s' = generated_dnas s"
  by (auto simp: generate_gif_character_def Let_def split: option.splits sum.splits list.splits)

lemma composite_registry:
  "composite env selected_layers edition s = (r, s') \<Longrightarrow> generated_dnas s' = generated_dnas s"
  by (auto simp: composite_def generate_png_character_registry generate_gif_character_registry
      split: if_splits)

lemma write_metadata_registry:
  "write_metadata env layers_order selected_layers dna edition image_path s = (r, s')
     \<Longrightarrow> generated_dnas s' = generated_dnas s"
  by (auto simp: write_metadata_def Let_def split: sum.splits)

lemma write_metadata_fields:
  "write_metadata env layers_order selected_layers dna edition image_path s = (Inr m, s')
     \<Longrightarrow> md_dna m = dna \<and> md_edition m = edition
         \<and> md_attributes m = attributes_of layers_order selected_layers"
  by (auto simp: write_metadata_def Let_def split: sum.splits)

lemma produce_registry:
  "produce env layers_order selected_layers dna edition s = (r, s')
     \<Longrightarrow> generated_dnas s' = generated_dnas s"
  by (auto simp: produce_def split: prod.splits sum.splits
      dest: composite_registry write_metadata_registry)

lemma produce_fields:
  "produce env layers_order selected_layers dna edition s = (Inr m, s')
     \<Longrightarrow> md_dna m = dna \<and> md_edition m = edition
         \<and> md_attributes m = attributes_of layers_order selected_layers"
  by (auto simp: produce_def split: prod.splits sum.splits dest: write_metadata_fields)

lemmas run_defs = select_layer_file_def generate_png_character_def generate_gif_character_def
  open_rgba_def skipped_def all_frames_def combine_frame_def info_duration_def composite_def
  animated_background_def produce_def write_metadata_def config_get_def attributes_of_def
  List.map_filter_def generate_character_def exhausted_def say_def reselect_def
  overlay_layers_def

lemma dict_set_fresh: "k \<notin> fst ` set d \<Longrightarrow> dict_set d k v = d @ [(k, v)]"
  by (induction d) auto

lemma load_static_layers_fresh:
  "distinct (map fst selected_layers)
   \<Longrightarrow> fst ` set selected_layers \<inter> fst ` set static_layers = {}
   \<Longrightarrow> map (\<lambda>(layer_name, layer_info). open_rgba env (lf_path layer_info))
         (overlay_layers selected_layers) = map Inr overlay_images
   \<Longrightarrow> load_static_layers env selected_layers static_layers
       = Inr (static_layers @ zip (map fst (overlay_layers selected_layers)) overlay_images)"
proof (induction selected_layers arbitrary: static_layers overlay_images)
  case Nil
  then show ?case by (simp add: overlay_layers_def)
next
  case (Cons entry rest)
  obtain layer_name layer_info where entry: "entry = (layer_name, layer_info)"
    by (cases entry)
  show ?case
  proof (cases "skipped layer_name layer_info")
    case True
    have "load_static_layers env rest static_layers
       = Inr (static_layers @ zip (map fst (overlay_layers rest)) overlay_images)"
      using Cons.prems True entry by (intro Cons.IH) (auto simp: overlay_layers_def)
    with True entry show ?thesis by (simp add: overlay_layers_def)
  next
    case False
    from Cons.prems(3) False entry obtain img imgs where
      imgs: "overlay_images = img # imgs" "open_rgba env (lf_path layer_info) = Inr img"
      "map (\<lambda>(layer_name, layer_info). open_rgba env (lf_path layer_info))
         (overlay_layers rest) = map Inr imgs"
      by (cases overlay_images) (auto simp: overlay_layers_def)
    have fresh: "layer_name \<notin> fst ` set static_layers"
      using Cons.prems(2) entry by auto
    have "load_static_layers env rest (static_layers @ [(layer_name, img)])
       = Inr ((static_layers @ [(layer_name, img)]) @ zip (map fst (overlay_layers rest)) imgs)"
      using Cons.prems(1,2) entry imgs(3) by (intro Cons.IH) auto
    with False entry imgs fresh show ?thesis
      by (simp add: overlay_layers_def dict_set_fresh)
  qed
qed

lemma length_overlay_images:
  "map f (overlay_layers selected_layers) = map Inr overlay_images
   \<Longrightarrow> length overlay_images = length (overlay_layers selected_layers)"
  by (metis length_map)

lemma composite_frames_all:
  "map fr_rgba fs = map Inr frame_images
   \<Longrightarrow> composite_frames env overlays fs = Inr (map (combine_frame env overlays) frame_images)"
proof (induction fs arbitrary: frame_images)
  case Nil
  then show ?case by simp
next
  case (Cons f fs)
  then obtain img imgs where "frame_images = img # imgs" "fr_rgba f = Inr img"
    "map fr_rgba fs = map Inr imgs"
    by (cases frame_images) auto
  with Cons.IH[of imgs] show ?case by simp
qed

lemma demo_select:
  "select_layers demo_env [''Background'', ''Body'', ''Eyes''] [] s
     = (Inr demo_selection, s\<lparr>rand_pos := rand_pos s + 2\<rparr>)"
  by (simp add: run_defs demo_defs path_defs)

lemma attempts_all_seen:
  "all_seen env layers_order n s
   \<Longrightarrow> attempts env layers_order edition max_attempts n s
       = (Inl (exhausted max_attempts), (reselect env layers_order ^^ n) s)"
proof (induction n arbitrary: s)
  case 0
  then show ?case by simp
next
  case (Suc n)
  obtain r s1 where sel: "select_layers env layers_order [] s = (r, s1)"
    by (cases "select_layers env layers_order [] s")
  with Suc.prems obtain selected_layers where
    r: "r = Inr selected_layers"
    and seen: "generate_dna_hash selected_layers \<in> generated_dnas s1"
    and rest: "all_seen env layers_order n s1"
    by (cases r) auto
  have step: "reselect env layers_order s = s1"
    using sel by (simp add: reselect_def)
  have "attempts env layers_order edition max_attempts (Suc n) s
      = attempts env layers_order edition max_attempts n s1"
    using sel r seen by simp
  also have "\<dots> = (Inl (exhausted max_attempts), (reselect env layers_order ^^ n) s1)"
    using rest by (rule Suc.IH)
  finally show ?case
    using step by (simp add: funpow_swap1)
qed

lemma editions_prefix:
  "editions env layers_order max_attempts xs acc s = (Inr ms, s1)
   \<Longrightarrow> length ms = length acc + length xs
   \<Longrightarrow> editions env layers_order max_attempts (xs @ ys) acc s
       = editions env layers_order max_attempts ys ms s1"
proof (induction xs arbitrary: acc s)
  case Nil
  then show ?case by simp
next
  case (Cons edition rest)
  obtain r s' where gen: "generate_character env layers_order edition max_attempts s = (r, s')"
    by (cases "generate_character env layers_order edition max_attempts s")
  show ?case
  proof (cases r)
    case (Inr m)
    with gen Cons.prems have
      "editions env layers_order max_attempts rest (acc @ [m])
         (say (''Generated character #'' @ str_int edition) s') = (Inr ms, s1)"
      "length ms = length (acc @ [m]) + length rest"
      by simp_all
    from Cons.IH[OF this] gen Inr show ?thesis by simp
  next
    case (Inl e)
    with gen Cons.prems show ?thesis by (cases e) auto
  qed
qed

lemma dna_demo:
  "generate_dna_hash demo_selection = ''c1c8156f0cbb67547d9bc1d8ba032aaea2b3d2ce''"
  by code_simp

lemma dna_big:
  "generate_dna_hash big_selection = ''bee013f3f87b25511cf6ce4f5bd4d1eae4523dd9''"
  by code_simp

lemma single_select:
  "select_layers single_env [''Background'', ''Body'', ''Eyes''] [] s
     = (Inr demo_selection, s\<lparr>rand_pos := rand_pos s + 2\<rparr>)"
  by (simp add: run_defs single_env_def demo_defs path_defs)

lemma broken_select_sky:
  "rand_pos s = 0 \<Longrightarrow>
   select_layers broken_env [''Background'', ''Body'', ''Eyes''] [] s
     = (Inr demo_selection, s\<lparr>rand_pos := 2\<rparr>)"
  by (simp add: run_defs demo_defs path_defs)

lemma broken_select_big:
  "rand_pos s = 2 \<Longrightarrow>
   select_layers broken_env [''Background'', ''Body'', ''Eyes''] [] s
     = (Inr big_selection, s\<lparr>rand_pos := 4\<rparr>)"
  by (simp add: run_defs demo_defs path_defs)

lemma attempts_success:
  "attempts env layers_order edition max_attempts n s = (Inr m, s')
   \<Longrightarrow> md_dna m \<notin> generated_dnas s
       \<and> generated_dnas s' = insert (md_dna m) (generated_dnas s)"
proof (induction n arbitrary: s)
  case 0
  then show ?case by simp
next
  case (Suc n)
  obtain r s1 where sel: "select_layers env layers_order [] s = (r, s1)"
    by (cases "select_layers env layers_order [] s")
  have reg: "generated_dnas s1 = generated_dnas s"
    using sel by (rule select_layers_registry)
  from Suc.prems sel obtain selected_layers where r: "r = Inr selected_layers"
    by (cases r) auto
  show ?case
  proof (cases "generate_dna_hash selected_layers \<in> generated_dnas s1")
    case True
    with Suc.prems sel r
    have "attempts env layers_order edition max_attempts n s1 = (Inr m, s')" by simp
    from Suc.IH[OF this] reg show ?thesis by simp
  next
    case False
    with Suc.prems sel r
    have made: "produce env layers_order selected_layers (generate_dna_hash selected_layers)
        edition (s1\<lparr>generated_dnas :=
                         insert (generate_dna_hash selected_layers) (generated_dnas s1)\<rparr>)
        = (Inr m, s')"
      by (simp add: Let_def)
    from produce_fields[OF made] produce_registry[OF made] False reg show ?thesis by simp
  qed
qed

lemma attempts_failure:
  "attempts env layers_order edition max_attempts n s = (Inl e, s')
   \<Longrightarrow> generated_dnas s' = generated_dnas s
       \<or> (\<exists>d. d \<notin> generated_dnas s \<and> generated_dnas s' = insert d (generated_dnas s))"
proof (induction n arbitrary: s)
  case 0
  then show ?case by simp
next
  case (Suc n)
  obtain r s1 where sel: "select_layers env layers_order [] s = (r, s1)"
    by (cases "select_layers env layers_order [] s")
  have reg: "generated_dnas s1 = generated_dnas s"
    using sel by (rule select_layers_registry)
  show ?case
  proof (cases r)
    case (Inl e')
    with Suc.prems sel reg show ?thesis by simp
  next
    case (Inr selected_layers)
    show ?thesis
    proof (cases "generate_dna_hash selected_layers \<in> generated_dnas s1")
      case True
      with Suc.prems sel Inr
      have "attempts env layers_order edition max_attempts n s1 = (Inl e, s')" by simp
      from Suc.IH[OF this] reg show ?thesis by simp
    next
      case False
      with Suc.prems sel Inr
      have "produce env layers_order selected_layers (generate_dna_hash selected_layers)
          edition (s1\<lparr>generated_dnas :=
                           insert (generate_dna_hash selected_layers) (generated_dnas s1)\<rparr>)
          = (Inl e, s')"
        by (simp add: Let_def)
      from produce_registry[OF this] False reg show ?thesis by auto
    qed
  qed
qed

lemma generate_character_success:
  "generate_character env layers_order edition max_attempts s = (Inr m, s')
   \<Longrightarrow> md_dna m \<notin> generated_dnas s
       \<and> generated_dnas s' = insert (md_dna m) (generated_dnas s)"
  unfolding generate_character_def by (rule attempts_success)

lemma generate_character_failure:
  "generate_character env layers_order edition max_attempts s = (Inl e, s')
   \<Longrightarrow> generated_dnas s' = generated_dnas s
       \<or> (\<exists>d. d \<notin> generated_dnas s \<and> generated_dnas s' = insert d (generated_dnas s))"
  unfolding generate_character_def by (rule attempts_failure)

lemma generate_character_grows:
  "generated_dnas s \<subseteq> generated_dnas (snd (generate_character env layers_order edition max_attempts s))"
proof -
  obtain r s' where gen: "generate_character env layers_order edition max_attempts s = (r, s')"
    by (cases "generate_character env layers_order edition max_attempts s")
  show ?thesis
  proof (cases r)
    case (Inl e)
    with gen generate_character_failure[of env layers_order edition max_attempts s e s']
    show ?thesis by auto
  next
    case (Inr m)
    with gen generate_character_success[of env layers_order edition max_attempts s m s']
    show ?thesis by auto
  qed
qed

lemmas dna_literals =
  dna_demo[unfolded demo_selection_def sky_file_def cat_file_def]
  dna_big[unfolded big_selection_def big_file_def cat_file_def]

lemma say_registry: "generated_dnas (say line s) = generated_dnas s"
  by (simp add: say_def)

lemma failed_attemptI:
  "select_layers env layers_order [] s = (Inr selected_layers, s1)
   \<Longrightarrow> generate_dna_hash selected_layers \<notin> generated_dnas s1
   \<Longrightarrow> produce env layers_order selected_layers (generate_dna_hash selected_layers) edition
         (s1\<lparr>generated_dnas := insert (generate_dna_hash selected_layers) (generated_dnas s1)\<rparr>)
       = (Inl e, s')
   \<Longrightarrow> failed_attempt env layers_order edition (generated_dnas s1)
         (generate_dna_hash selected_layers) e s'"
  unfolding failed_attempt_def by blast

lemma failed_attempt_registry:
  "failed_attempt env layers_order edition registry dna e s'
   \<Longrightarrow> dna \<notin> registry \<and> generated_dnas s' = insert dna registry"
  unfolding failed_attempt_def by (auto dest: produce_registry)

lemma attempts_failure_dna:
  "attempts env layers_order edition max_attempts n s = (Inl e, s')
   \<Longrightarrow> generated_dnas s' = generated_dnas s
       \<or> (\<exists>dna. failed_attempt env layers_order edition (generated_dnas s) dna e s')"
proof (induction n arbitrary: s)
  case 0
  then show ?case by simp
next
  case (Suc n)
  obtain r s1 where sel: "select_layers env layers_order [] s = (r, s1)"
    by (cases "select_layers env layers_order [] s")
  have reg: "generated_dnas s1 = generated_dnas s"
    using sel by (rule select_layers_registry)
  show ?case
  proof (cases r)
    case (Inl e')
    with Suc.prems sel reg show ?thesis by simp
  next
    case (Inr selected_layers)
    show ?thesis
    proof (cases "generate_dna_hash selected_layers \<in> generated_dnas s1")
      case True
      with Suc.prems sel Inr
      have "attempts env layers_order edition max_attempts n s1 = (Inl e, s')" by simp
      from Suc.IH[OF this] show ?thesis unfolding reg .
    next
      case False
      with Suc.prems sel Inr
      have made: "produce env layers_order selected_layers (generate_dna_hash selected_layers)
          edition (s1\<lparr>generated_dnas :=
                           insert (generate_dna_hash selected_layers) (generated_dnas s1)\<rparr>)
          = (Inl e, s')"
        by (simp add: Let_def)
      from failed_attemptI[OF sel[unfolded Inr] False made] show ?thesis
        unfolding reg by blast
    qed
  qed
qed

lemma editions_registry_dna:
  "editions env layers_order max_attempts es acc s = (Inr ms, s')
   \<Longrightarrow> \<exists>new. ms = acc @ new \<and> length new \<le> length es
         \<and> distinct (map md_dna new)
         \<and> set (map md_dna new) \<inter> generated_dnas s = {}
         \<and> (generated_dnas s' = generated_dnas s \<union> set (map md_dna new)
            \<or> (\<exists>dna msg u.
                  length new < length es
                  \<and> failed_attempt env layers_order (es ! length new)
                        (generated_dnas s \<union> set (map md_dna new)) dna (ValueError msg) u
                  \<and> generated_dnas s' = generated_dnas u))"
proof (induction es arbitrary: acc s)
  case Nil
  then show ?case by simp
next
  case (Cons edition rest)
  obtain r s1 where gen: "generate_character env layers_order edition max_attempts s = (r, s1)"
    by (cases "generate_character env layers_order edition max_attempts s")
  show ?case
  proof (cases r)
    case (Inr m)
    from generate_character_success[OF gen[unfolded Inr]]
    have fresh: "md_dna m \<notin> generated_dnas s"
      and reg: "generated_dnas s1 = insert (md_dna m) (generated_dnas s)"
      by simp_all
    define w where "w = say (''Generated character #'' @ str_int edition) s1"
    have w_reg: "generated_dnas w = insert (md_dna m) (generated_dnas s)"
      unfolding w_def using reg by (simp add: say_registry)
    from Cons.prems gen Inr
    have "editions env layers_order max_attempts rest (acc @ [m]) w = (Inr ms, s')"
      unfolding w_def by simp
    from Cons.IH[OF this] obtain new where new:
      "ms = (acc @ [m]) @ new" "length new \<le> length rest" "distinct (map md_dna new)"
      "set (map md_dna new) \<inter> generated_dnas w = {}"
      and regs: "generated_dnas s' = generated_dnas w \<union> set (map md_dna new)
       \<or> (\<exists>dna msg u.
                  length new < length rest
                  \<and> failed_attempt env layers_order (rest ! length new)
                        (generated_dnas w \<union> set (map md_dna new)) dna (ValueError msg) u
                  \<and> generated_dnas s' = generated_dnas u)"
      by (elim exE conjE)
    have base: "generated_dnas w \<union> set (map md_dna new)
        = generated_dnas s \<union> set (map md_dna (m # new))"
      using w_reg by auto
    have a: "ms = acc @ (m # new)" using new(1) by simp
    have b: "length (m # new) \<le> length (edition # rest)" using new(2) by simp
    have c: "distinct (map md_dna (m # new))" using new(3,4) w_reg by auto
    have d: "set (map md_dna (m # new)) \<inter> generated_dnas s = {}"
      using new(4) w_reg fresh by auto
    have e: "generated_dnas s' = generated_dnas s \<union> set (map md_dna (m # new))
       \<or> (\<exists>dna msg u.
                  length (m # new) < length (edition # rest)
                  \<and> failed_attempt env layers_order ((edition # rest) ! length (m # new))
                        (generated_dnas s \<union> set (map md_dna (m # new))) dna (ValueError msg) u
                  \<and> generated_dnas s' = generated_dnas u)"
      using regs unfolding base by simp
    from a b c d e show ?thesis by (intro exI[of _ "m # new"] conjI)
  next
    case (Inl e)
    show ?thesis
    proof (cases e)
      case (ValueError msg)
      with Cons.prems gen Inl have ms: "ms = acc"
        and s': "s' = say (''Error generating character #'' @ str_int edition @ '': '' @ msg) s1"
        by simp_all
      have s'_reg: "generated_dnas s' = generated_dnas s1"
        unfolding s' by (rule say_registry)
      from attempts_failure_dna[OF gen[unfolded Inl ValueError generate_character_def]]
      have "generated_dnas s1 = generated_dnas s
          \<or> (\<exists>dna. failed_attempt env layers_order edition (generated_dnas s) dna
                     (ValueError msg) s1)" .
      then have "generated_dnas s' = generated_dnas s \<union> set (map md_dna ([] :: metadata list))
         \<or> (\<exists>dna msg u.
                  length ([] :: metadata list) < length (edition # rest)
                  \<and> failed_attempt env layers_order ((edition # rest) ! length ([] :: metadata list))
                        (generated_dnas s \<union> set (map md_dna ([] :: metadata list))) dna
                        (ValueError msg) u
                  \<and> generated_dnas s' = generated_dnas u)"
        unfolding s'_reg by auto
      with ms show ?thesis by (intro exI[of _ "[]"]) simp
    qed (use Cons.prems gen Inl in auto)
  qed
qed

lemma dna_sea:
  "generate_dna_hash sea_selection = ''c29e8931d3c6c8ed3bf33d307d65f26024e328b0''"
  by code_simp

lemmas dna_sea_literal = dna_sea[unfolded sea_selection_def sea_file_def cat_file_def]

lemma broken_run:
  "generate_collection broken_env world0 = (Inr [demo_metadata], after_broken_run)"
  by (simp add: generate_collection_def run_defs upto.simps eval_nat_numeral dna_literals
      after_broken_run_def after_first_def demo_metadata_def demo_defs path_defs
      insert_commute)

lemma twin_run:
  "generate_collection twin_env world0 = (Inr [demo_metadata, second_metadata], after_second)"
  by (simp add: generate_collection_def run_defs upto.simps eval_nat_numeral dna_literals
      dna_sea_literal twin_env_def second_metadata_def after_second_def sea_selection_def
      sea_file_def demo_metadata_def demo_defs path_defs insert_commute)

lemma twin_run_seeded:
  "generate_collection twin_env seeded_world
     = (Inr [demo_metadata, second_metadata],
        after_second
          \<lparr>generated_dnas :=
             {generate_dna_hash big_selection, generate_dna_hash demo_selection,
              generate_dna_hash sea_selection}\<rparr>)"
  by (simp add: generate_collection_def run_defs upto.simps eval_nat_numeral dna_literals
      dna_sea_literal twin_env_def second_metadata_def after_second_def sea_selection_def
      sea_file_def seeded_world_def demo_metadata_def demo_defs path_defs insert_commute)


lemma dna_ab: "generate_dna_hash ab_selection = ''9de81ec82f4248875d69ff3a2e1d9d0a8a35a1c9''"
  by code_simp

lemma dna_ba: "generate_dna_hash ba_selection = ''0f833d446d4fdfb0bd4631aab4e459c66f7d1555''"
  by code_simp

lemma select_layer_file_none:
  "\<not> path_exists env (layer_dir_of env layer_name)
   \<or> (\<exists>entries. listdir env (layer_dir_of env layer_name) = Inr entries
                \<and> filter eligible entries = [])
   \<Longrightarrow> select_layer_file env layer_name s = (Inr None, s)"
  by (auto simp: select_layer_file_def layer_dir_of_def Let_def)

lemma select_layer_file_present:
  "select_layer_file env layer_name s = (Inr choice, s')
   \<Longrightarrow> (choice \<noteq> None) = present env layer_name"
  by (auto simp: select_layer_file_def present_def layer_dir_of_def Let_def
      split: if_splits sum.splits)

lemma keys_dict_set:
  "map fst (dict_set d k v) = (if k \<in> set (map fst d) then map fst d else map fst d @ [k])"
  by (induction d) force+

lemma distinct_dict_set: "distinct (map fst d) \<Longrightarrow> distinct (map fst (dict_set d k v))"
  by (simp add: keys_dict_set)

lemma select_layers_keys:
  "select_layers env layers_order acc s = (Inr selected_layers, s')
   \<Longrightarrow> map fst selected_layers = stored_order env layers_order (map fst acc)"
proof (induction layers_order arbitrary: acc s)
  case Nil
  then show ?case by simp
next
  case (Cons layer rest)
  obtain r s1 where sel: "select_layer_file env layer s = (r, s1)"
    by (cases "select_layer_file env layer s")
  with Cons.prems obtain choice where r: "r = Inr choice"
    by (cases r) auto
  note pres = select_layer_file_present[OF sel[unfolded r]]
  show ?case
  proof (cases choice)
    case None
    with Cons.prems sel r have "select_layers env rest acc s1 = (Inr selected_layers, s')"
      by simp
    from Cons.IH[OF this] pres None show ?thesis by simp
  next
    case (Some layer_file)
    with Cons.prems sel r
    have "select_layers env rest (dict_set acc layer layer_file) s1 = (Inr selected_layers, s')"
      by simp
    from Cons.IH[OF this] pres Some show ?thesis by (simp add: keys_dict_set)
  qed
qed

lemma distinct_stored_order: "distinct ks \<Longrightarrow> distinct (stored_order env layers_order ks)"
  by (induction layers_order arbitrary: ks) auto

lemma set_stored_order:
  "set (stored_order env layers_order ks) = set ks \<union> {l \<in> set layers_order. present env l}"
  by (induction layers_order arbitrary: ks) auto

lemma stored_order_rand: "stored_order (env\<lparr>rand := r\<rparr>) layers_order ks = stored_order env layers_order ks"
  by (induction layers_order arbitrary: ks) (auto simp: present_def layer_dir_of_def)

lemma same_keys_same_map:
  "map fst xs = map fst ys \<Longrightarrow> distinct (map fst xs) \<Longrightarrow> map_of xs = map_of ys \<Longrightarrow> xs = ys"
proof (induction xs arbitrary: ys)
  case Nil
  then show ?case by simp
next
  case (Cons x xs)
  from Cons.prems(1) obtain y ys' where ys: "ys = y # ys'" "fst x = fst y" "map fst xs = map fst ys'"
    by (cases ys) auto
  obtain k v where x: "x = (k, v)" by (cases x)
  with ys obtain v' where y: "y = (k, v')" by (cases y) auto
  have eq: "map_of ((k, v) # xs) = map_of ((k, v') # ys')"
    using Cons.prems(3) unfolding ys(1) x y .
  from fun_cong[OF eq, of k] have v: "v = v'" by simp
  have "map_of xs j = map_of ys' j" for j
  proof (cases "j = k")
    case True
    from Cons.prems(2) x have "k \<notin> fst ` set xs" by simp
    moreover from this ys(3) have "k \<notin> fst ` set ys'" by (metis set_map)
    ultimately have "map_of xs k = None" and "map_of ys' k = None"
      by (simp_all add: map_of_eq_None_iff)
    with True show ?thesis by simp
  next
    case False
    with fun_cong[OF eq, of j] show ?thesis by simp
  qed
  then have "map_of xs = map_of ys'" by (rule ext)
  from Cons.IH[OF ys(3) _ this] Cons.prems(2) have "xs = ys'" by simp
  with x y v ys show ?case by simp
qed

lemma attributes_of_keys:
  "map fst (attributes_of layers_order selected_layers)
     = filter (\<lambda>layer. layer \<in> fst ` set selected_layers) layers_order"
proof (induction layers_order)
  case Nil
  then show ?case by (simp add: attributes_of_def)
next
  case (Cons layer rest)
  show ?case
  proof (cases "map_of selected_layers layer")
    case None
    then have "layer \<notin> fst ` set selected_layers" by (simp add: map_of_eq_None_iff)
    with None Cons show ?thesis by (simp add: attributes_of_def)
  next
    case (Some layer_file)
    then have "layer \<in> fst ` set selected_layers"
      by (metis map_of_eq_None_iff option.distinct(1))
    with Some Cons show ?thesis by (simp add: attributes_of_def)
  qed
qed

lemma attempts_attributes:
  "attempts env layers_order edition max_attempts n s = (Inr m, s')
   \<Longrightarrow> \<exists>selected_layers s0 s1.
         select_layers env layers_order [] s0 = (Inr selected_layers, s1)
         \<and> md_attributes m = attributes_of layers_order selected_layers"
proof (induction n arbitrary: s)
  case 0
  then show ?case by simp
next
  case (Suc n)
  obtain r s1 where sel: "select_layers env layers_order [] s = (r, s1)"
    by (cases "select_layers env layers_order [] s")
  from Suc.prems sel obtain selected_layers where r: "r = Inr selected_layers"
    by (cases r) auto
  show ?case
  proof (cases "generate_dna_hash selected_layers \<in> generated_dnas s1")
    case True
    with Suc.prems sel r
    have "attempts env layers_order edition max_attempts n s1 = (Inr m, s')" by simp
    then show ?thesis by (rule Suc.IH)
  next
    case False
    with Suc.prems sel r
    have "produce env layers_order selected_layers (generate_dna_hash selected_layers)
        edition (s1\<lparr>generated_dnas :=
                         insert (generate_dna_hash selected_layers) (generated_dnas s1)\<rparr>)
        = (Inr m, s')"
      by (simp add: Let_def)
    from produce_fields[OF this] sel r show ?thesis by blast
  qed
qed

subsection \<open>Static compositing without a background\<close>

text \<open>
  Claim C10. When the selection has no \<^verbatim>\<open>Background\<close> entry the static path raises (the
  \<^verbatim>\<open>TypeError\<close> of subscripting \<^verbatim>\<open>None\<close>) and changes nothing; so whenever it returns
  an output path, a \<^verbatim>\<open>Background\<close> selection was present.
\<close>
theorem static_path_needs_background:
  "(map_of selected_layers ''Background'' = None \<longrightarrow>
      generate_png_character env selected_layers edition s
        = (Inl (TypeError ''NoneType object is not subscriptable''), s))
   \<and> (generate_png_character env selected_layers edition s = (Inr output_path, s') \<longrightarrow>
        map_of selected_layers ''Background'' \<noteq> None)"
  by (auto simp: generate_png_character_def split: option.splits)

theorem static_path_needs_background_witness:
  "map_of [(''Body'', cat_file)] ''Background'' = None
   \<and> generate_png_character demo_env [(''Body'', cat_file)] 1 world0
       = (Inl (TypeError ''NoneType object is not subscriptable''), world0)
   \<and> generate_png_character demo_env demo_selection 1 world0
       = (Inr ''o/images/1.png'',
          world0\<lparr>images_written := [(''o/images/1.png'', PngFile [''sky'', ''cat''])],
                 stdout := [''Generated character PNG: o/images/1.png'']\<rparr>)
   \<and> map_of demo_selection ''Background'' \<noteq> None"
proof -
  have run: "generate_png_character demo_env demo_selection 1 world0
       = (Inr ''o/images/1.png'',
          world0\<lparr>images_written := [(''o/images/1.png'', PngFile [''sky'', ''cat''])],
                 stdout := [''Generated character PNG: o/images/1.png'']\<rparr>)"
    by (simp add: generate_png_character_def open_rgba_def skipped_def demo_defs path_defs)
  have none: "map_of [(''Body'', cat_file)] ''Background'' = None" by simp
  from static_path_needs_background[where selected_layers = "[(''Body'', cat_file)]"
      and env = demo_env and edition = 1 and s = world0] none
    static_path_needs_background[where selected_layers = demo_selection
      and env = demo_env and edition = 1 and s = world0, THEN conjunct2, rule_format, OF run]
    run
  show ?thesis by simp
qed

subsection \<open>Choice of the compositing path\<close>

text \<open>
  Claim C5. The compositing path depends on the \<^verbatim>\<open>Background\<close> selection alone: the
  animated path runs exactly when a \<^verbatim>\<open>Background\<close> selection is present and its type is
  \<^verbatim>\<open>gif\<close>; in every other case, also without a \<^verbatim>\<open>Background\<close> selection, the static
  path runs.
\<close>
theorem compositing_path_by_background_type:
  "((\<exists>background. map_of selected_layers ''Background'' = Some background
        \<and> lf_type background = ''gif'') \<longrightarrow>
      composite env selected_layers edition s
        = generate_gif_character env selected_layers edition s)
   \<and> (\<not> (\<exists>background. map_of selected_layers ''Background'' = Some background
        \<and> lf_type background = ''gif'') \<longrightarrow>
      composite env selected_layers edition s
        = generate_png_character env selected_layers edition s)
   \<and> (map_of selected_layers ''Background'' = None \<longrightarrow>
      composite env selected_layers edition s
        = generate_png_character env selected_layers edition s)"
  by (auto simp: composite_def animated_background_def split: option.splits)

theorem compositing_path_by_background_type_witness:
  "composite gif_env gif_selection 1 world0 = generate_gif_character gif_env gif_selection 1 world0
   \<and> composite demo_env demo_selection 1 world0
       = generate_png_character demo_env demo_selection 1 world0
   \<and> composite demo_env [(''Body'', cat_file)] 1 world0
       = generate_png_character demo_env [(''Body'', cat_file)] 1 world0
   \<and> fst (generate_gif_character gif_env gif_selection 1 world0) = Inr ''o/images/1.gif''
   \<and> fst (generate_png_character demo_env demo_selection 1 world0) = Inr ''o/images/1.png''"
proof -
  have a: "\<exists>background. map_of gif_selection ''Background'' = Some background
        \<and> lf_type background = ''gif''"
    by (simp add: gif_selection_def wave_file_def)
  have b: "\<not> (\<exists>background. map_of demo_selection ''Background'' = Some background
        \<and> lf_type background = ''gif'')"
    by (simp add: demo_selection_def sky_file_def)
  have c: "map_of [(''Body'', cat_file)] ''Background'' = None" by simp
  have d: "fst (generate_gif_character gif_env gif_selection 1 world0) = Inr ''o/images/1.gif''"
    by (simp add: generate_gif_character_def all_frames_def combine_frame_def open_rgba_def
        skipped_def info_duration_def demo_defs path_defs)
  have e: "fst (generate_png_character demo_env demo_selection 1 world0) = Inr ''o/images/1.png''"
    by (simp add: generate_png_character_def open_rgba_def skipped_def demo_defs path_defs)
  from compositing_path_by_background_type[where selected_layers = gif_selection
      and env = gif_env and edition = 1 and s = world0] a
    compositing_path_by_background_type[where selected_layers = demo_selection
      and env = demo_env and edition = 1 and s = world0] b
    compositing_path_by_background_type[where selected_layers = "[(''Body'', cat_file)]"
      and env = demo_env and edition = 1 and s = world0] c d e
  show ?thesis by simp
qed


subsection \<open>Frames of the animated path\<close>

text \<open>
  Claim C6. When the background file opens, each of its \<open>F\<close> frames decodes and each
  selected static layer other than the background opens, the animated path returns and
  hands the encoder exactly \<open>F\<close> frames: frame \<open>i\<close> is background frame \<open>i\<close> with the same
  overlays pasted on it in the same (dictionary) order.
\<close>
theorem animated_path_frames:
  assumes "distinct (map fst selected_layers)"
    and "map_of selected_layers ''Background'' = Some background"
    and "image_open env (lf_path background) = Inr background_gif"
    and "map fr_rgba (all_frames background_gif) = map Inr frame_images"
    and "map (\<lambda>(layer_name, layer_info). open_rgba env (lf_path layer_info))
           (overlay_layers selected_layers) = map Inr overlay_images"
  shows "generate_gif_character env selected_layers edition s
         = (Inr (images_path env (str_int edition @ ''.gif'')),
            s\<lparr>images_written :=
                (images_path env (str_int edition @ ''.gif''),
                 GifFile (map (combine_frame env overlay_images) frame_images)
                   (info_duration background_gif) 0) # images_written s,
              stdout := stdout s @
                [''Generated character GIF: '' @ images_path env (str_int edition @ ''.gif'')]\<rparr>)
         \<and> length (map (combine_frame env overlay_images) frame_images)
             = length (all_frames background_gif)"
proof -
  have len: "length frame_images = length (all_frames background_gif)"
    using assms(4) by (metis length_map)
  have static: "load_static_layers env selected_layers []
      = Inr (zip (map fst (overlay_layers selected_layers)) overlay_images)"
    using load_static_layers_fresh[OF assms(1) _ assms(5), of "[]"] by simp
  have "length (map fst (overlay_layers selected_layers)) = length overlay_images"
    using length_overlay_images[OF assms(5)] by simp
  then have overlays: "map snd (zip (map fst (overlay_layers selected_layers)) overlay_images)
      = overlay_images"
    by simp
  have frames: "composite_frames env overlay_images (all_frames background_gif)
      = Inr (map (combine_frame env overlay_images) frame_images)"
    using assms(4) by (rule composite_frames_all)
  from len have "frame_images \<noteq> []" by (auto simp: all_frames_def)
  then obtain f0 rest where "map (combine_frame env overlay_images) frame_images = f0 # rest"
    by (cases frame_images) auto
  with assms(2,3) static overlays frames
  have run: "generate_gif_character env selected_layers edition s
         = (Inr (images_path env (str_int edition @ ''.gif'')),
            s\<lparr>images_written :=
                (images_path env (str_int edition @ ''.gif''),
                 GifFile (map (combine_frame env overlay_images) frame_images)
                   (info_duration background_gif) 0) # images_written s,
              stdout := stdout s @
                [''Generated character GIF: '' @ images_path env (str_int edition @ ''.gif'')]\<rparr>)"
    by (simp add: generate_gif_character_def Let_def)
  have "length (map (combine_frame env overlay_images) frame_images)
      = length (all_frames background_gif)"
    using len by simp
  with run show ?thesis by (rule conjI)
qed

theorem animated_path_frames_witness:
  "generate_gif_character gif_env gif_selection 1 world0
     = (Inr ''o/images/1.gif'',
        world0\<lparr>images_written :=
            [(''o/images/1.gif'',
              GifFile [[''w0'', ''cat'', ''dot''], [''w1'', ''cat'', ''dot''],
                       [''w2'', ''cat'', ''dot''], [''w3'', ''cat'', ''dot''],
                       [''w4'', ''cat'', ''dot'']] 80 0)],
          stdout := [''Generated character GIF: o/images/1.gif'']\<rparr>)
   \<and> length (all_frames wave) = 5"
proof -
  have a: "distinct (map fst gif_selection)" by (simp add: gif_selection_def)
  have b: "map_of gif_selection ''Background'' = Some wave_file" by (simp add: gif_selection_def)
  have c: "image_open gif_env (lf_path wave_file) = Inr wave"
    by (simp add: gif_env_def wave_file_def)
  have d: "map fr_rgba (all_frames wave)
      = map Inr [[''w0''], [''w1''], [''w2''], [''w3''], [''w4'']]"
    by (simp add: all_frames_def wave_def)
  have e: "map (\<lambda>(layer_name, layer_info). open_rgba gif_env (lf_path layer_info))
           (overlay_layers gif_selection) = map Inr [[''cat''], [''dot'']]"
    by (simp add: overlay_layers_def skipped_def open_rgba_def demo_defs)
  from animated_path_frames[OF a b c d e, of 1 world0] show ?thesis
    by (simp add: combine_frame_def info_duration_def all_frames_def demo_defs path_defs)
qed

subsection \<open>Timing of the animated path\<close>

text \<open>
  Claim C7 says that every output frame keeps the duration of its source frame and that the
  loop count of the background is carried over. It fails on a background whose frames last
  40, 40, 120, 40 and 80 ms and whose loop count is 3: the encoder gets the one duration
  80 for all five frames and the loop count 0.
\<close>
theorem animated_timing_counterexample:
  "generate_gif_character gif_env gif_selection 1 world0
     = (Inr ''o/images/1.gif'',
        world0\<lparr>images_written :=
            [(''o/images/1.gif'',
              GifFile [[''w0'', ''cat'', ''dot''], [''w1'', ''cat'', ''dot''],
                       [''w2'', ''cat'', ''dot''], [''w3'', ''cat'', ''dot''],
                       [''w4'', ''cat'', ''dot'']] 80 0)],
          stdout := [''Generated character GIF: o/images/1.gif'']\<rparr>)
   \<and> map_of gif_selection ''Background'' = Some wave_file
   \<and> image_open gif_env (lf_path wave_file) = Inr wave
   \<and> map fr_duration (all_frames wave) = [Some 40, Some 40, Some 120, Some 40, Some 80]
   \<and> loop_count wave = Some 3"
  by (simp add: run_defs demo_defs path_defs)

text \<open>
  Claim C7, amended. The animated path hands the encoder one duration for all frames, the
  \<^verbatim>\<open>duration\<close> entry that the background's \<^verbatim>\<open>info\<close> holds after the frame loop (that
  of the last frame, 100 when it has none), and always the loop count 0.
\<close>

theorem animated_path_timing:
  assumes "generate_gif_character env selected_layers edition s = (Inr output_path, s')"
  shows "\<exists>background background_gif frames.
           map_of selected_layers ''Background'' = Some background
           \<and> image_open env (lf_path background) = Inr background_gif
           \<and> images_written s'
               = (output_path,
                  GifFile frames
                    (case fr_duration (last (all_frames background_gif)) of
                       None \<Rightarrow> 100 | Some d \<Rightarrow> d) 0) # images_written s"
  using assms
  by (auto simp: generate_gif_character_def info_duration_def Let_def
      split: option.splits sum.splits list.splits)

theorem animated_path_timing_witness:
  "\<exists>background background_gif frames.
     map_of gif_selection ''Background'' = Some background
     \<and> image_open gif_env (lf_path background) = Inr background_gif
     \<and> images_written
          (world0\<lparr>images_written :=
              [(''o/images/1.gif'',
                GifFile [[''w0'', ''cat'', ''dot''], [''w1'', ''cat'', ''dot''],
                         [''w2'', ''cat'', ''dot''], [''w3'', ''cat'', ''dot''],
                         [''w4'', ''cat'', ''dot'']] 80 0)],
            stdout := [''Generated character GIF: o/images/1.gif'']\<rparr>)
         = (''o/images/1.gif'',
            GifFile frames
              (case fr_duration (last (all_frames background_gif)) of
                 None \<Rightarrow> 100 | Some d \<Rightarrow> d) 0) # images_written world0"
proof -
  have run: "generate_gif_character gif_env gif_selection 1 world0
     = (Inr ''o/images/1.gif'',
        world0\<lparr>images_written :=
            [(''o/images/1.gif'',
              GifFile [[''w0'', ''cat'', ''dot''], [''w1'', ''cat'', ''dot''],
                       [''w2'', ''cat'', ''dot''], [''w3'', ''cat'', ''dot''],
                       [''w4'', ''cat'', ''dot'']] 80 0)],
          stdout := [''Generated character GIF: o/images/1.gif'']\<rparr>)"
    by (simp add: run_defs demo_defs path_defs)
  from animated_path_timing[OF run] show ?thesis .
qed


subsection \<open>Exhaustion of the attempts\<close>

text \<open>
  Claim C3 says that the exhaustion error carries the edition number and is raised after
  exactly \<^verbatim>\<open>max_attempts\<close> attempts. With a single combination that is already
  registered, editions 7 and 8 fail with the same \<^verbatim>\<open>ValueError\<close>, whose message names
  the attempt cap only; and with the cap \<open>-1\<close> no attempt is made.
\<close>
theorem exhaustion_counterexample:
  "generate_character demo_env [''Background'', ''Body'', ''Eyes''] 7 2 seen_world
     = (Inl (ValueError ''Could not generate a unique character after 2 attempts''),
        seen_world\<lparr>rand_pos := 4\<rparr>)
   \<and> generate_character demo_env [''Background'', ''Body'', ''Eyes''] 8 2 seen_world
     = (Inl (ValueError ''Could not generate a unique character after 2 attempts''),
        seen_world\<lparr>rand_pos := 4\<rparr>)
   \<and> generate_character demo_env [''Background'', ''Body'', ''Eyes''] 7 (- 1) seen_world
     = (Inl (ValueError ''Could not generate a unique character after -1 attempts''),
        seen_world)"
  by (simp add: generate_character_def exhausted_def demo_select eval_nat_numeral
      seen_world_def world0_def path_defs del: select_layers.simps)

text \<open>
  Claim C3, amended. When each of the selections of an edition yields a fingerprint that
  the registry holds, \<^verbatim>\<open>generate_character\<close> makes exactly \<^verbatim>\<open>max_attempts\<close> full
  selections (none when \<^verbatim>\<open>max_attempts\<close> is negative), changes nothing else, and raises
  a \<^verbatim>\<open>ValueError\<close> whose message carries \<^verbatim>\<open>max_attempts\<close> and not the edition number.
\<close>

theorem exhaustion_after_max_attempts:
  assumes "all_seen env layers_order (nat max_attempts) s"
  shows "generate_character env layers_order edition max_attempts s
         = (Inl (ValueError (''Could not generate a unique character after ''
                             @ str_int max_attempts @ '' attempts'')),
            (reselect env layers_order ^^ nat max_attempts) s)"
  using attempts_all_seen[OF assms] by (simp add: generate_character_def exhausted_def)

theorem exhaustion_after_max_attempts_witness:
  "all_seen demo_env [''Background'', ''Body'', ''Eyes''] (nat 2) seen_world
   \<and> generate_character demo_env [''Background'', ''Body'', ''Eyes''] 7 2 seen_world
     = (Inl (ValueError ''Could not generate a unique character after 2 attempts''),
        seen_world\<lparr>rand_pos := 4\<rparr>)
   \<and> (reselect demo_env [''Background'', ''Body'', ''Eyes''] ^^ nat 2) seen_world
     = seen_world\<lparr>rand_pos := 4\<rparr>"
proof -
  have seen: "all_seen demo_env [''Background'', ''Body'', ''Eyes''] (nat 2) seen_world"
    by (simp add: demo_select eval_nat_numeral seen_world_def world0_def
        del: select_layers.simps)
  have twice: "(reselect demo_env [''Background'', ''Body'', ''Eyes''] ^^ nat 2) seen_world
     = seen_world\<lparr>rand_pos := 4\<rparr>"
    by (simp add: reselect_def demo_select eval_nat_numeral seen_world_def world0_def
        del: select_layers.simps)
  from exhaustion_after_max_attempts[OF seen, of 7] seen twice show ?thesis
    by (simp add: path_defs)
qed

subsection \<open>The collection stops at the first exhausted edition\<close>

text \<open>
  Claim C4. When editions \<open>1 .. k - 1\<close> were produced and \<^verbatim>\<open>generate_character\<close> raises
  the exhaustion error for edition \<open>k\<close>, \<^verbatim>\<open>generate_collection\<close> returns exactly the
  metadata of editions \<open>1 .. k - 1\<close>, and its final state is the one the failed edition
  left plus the printed error line: no later edition is attempted.
\<close>
theorem collection_stops_at_exhaustion:
  assumes "cfg_generation_settings (config env) = Some generation_settings"
    and "total_characters generation_settings = Some total_chars"
    and "max_generation_attempts generation_settings = Some max_attempts"
    and "layers_order = (case cfg_layers_order (config env) of None \<Rightarrow> [] | Some l \<Rightarrow> l)"
    and "1 \<le> k" and "k \<le> total_chars"
    and "editions env layers_order max_attempts [1..k - 1] [] s = (Inr produced, s1)"
    and "length produced = nat (k - 1)"
    and "generate_character env layers_order k max_attempts s1
           = (Inl (exhausted max_attempts), s2)"
  shows "generate_collection env s
         = (Inr produced,
            say (''Error generating character #'' @ str_int k
                 @ '': Could not generate a unique character after ''
                 @ str_int max_attempts @ '' attempts'') s2)"
proof -
  have split: "[1..total_chars] = [1..k - 1] @ k # [k + 1..total_chars]"
    using assms(5,6) by (rule upto_split3)
  have len: "length produced = length ([] :: metadata list) + length [1..k - 1]"
    using assms(8) by simp
  have "editions env layers_order max_attempts [1..total_chars] [] s
      = editions env layers_order max_attempts (k # [k + 1..total_chars]) produced s1"
    unfolding split using assms(7) len by (rule editions_prefix)
  also have "\<dots> = (Inr produced,
            say (''Error generating character #'' @ str_int k
                 @ '': Could not generate a unique character after ''
                 @ str_int max_attempts @ '' attempts'') s2)"
    using assms(9) by (simp add: exhausted_def)
  finally show ?thesis
    using assms(1-4) by (simp add: generate_collection_def config_get_def)
qed

theorem collection_stops_at_exhaustion_witness:
  "generate_collection demo_env world0
     = (Inr [demo_metadata],
        after_first
          \<lparr>rand_pos := 6,
           stdout := stdout after_first @
             [''Error generating character #2: Could not generate a unique character after 2 attempts'']\<rparr>)
   \<and> total_characters
        \<lparr>total_characters = Some 3, max_generation_attempts = Some 2\<rparr> = Some 3"
proof -
  have first: "editions demo_env [''Background'', ''Body'', ''Eyes''] 2 [1..2 - 1] [] world0
      = (Inr [demo_metadata], after_first)"
    apply (simp add: generate_character_def demo_select eval_nat_numeral
        del: select_layers.simps)
    apply (simp add: run_defs demo_metadata_def after_first_def demo_defs path_defs)
    done
  have second: "generate_character demo_env [''Background'', ''Body'', ''Eyes''] 2 2 after_first
      = (Inl (exhausted 2), after_first\<lparr>rand_pos := 6\<rparr>)"
    by (simp add: generate_character_def demo_select eval_nat_numeral after_first_def
        del: select_layers.simps)
  have "generate_collection demo_env world0
     = (Inr [demo_metadata],
        say (''Error generating character #'' @ str_int 2
                 @ '': Could not generate a unique character after ''
                 @ str_int 2 @ '' attempts'') (after_first\<lparr>rand_pos := 6\<rparr>))"
    by (rule collection_stops_at_exhaustion[where k = 2 and total_chars = 3
          and generation_settings
            = "\<lparr>total_characters = Some 3, max_generation_attempts = Some 2\<rparr>",
          OF _ _ _ _ _ _ first _ second])
       (simp_all add: demo_env_def demo_config_def)
  then show ?thesis by (simp add: say_def path_defs)
qed


subsection \<open>The registry after a failed compositing\<close>

text \<open>
  Claim C9. An attempt whose fingerprint is new runs the compositing from a registry that
  already holds the fingerprint. When the compositing raises, \<^verbatim>\<open>generate_character\<close>
  raises the same exception and the registry it leaves is the old one plus that
  fingerprint; every later call that starts from a registry containing it and succeeds
  returns a different fingerprint.
\<close>
theorem failed_compositing_keeps_dna:
  assumes "select_layers env layers_order [] s = (Inr selected_layers, s1)"
    and "generate_dna_hash selected_layers \<notin> generated_dnas s"
    and "0 < max_attempts"
    and "composite env selected_layers edition
           (s1\<lparr>generated_dnas := insert (generate_dna_hash selected_layers) (generated_dnas s1)\<rparr>)
         = (Inl e, s2)"
  shows "generate_character env layers_order edition max_attempts s
         = produce env layers_order selected_layers (generate_dna_hash selected_layers) edition
             (s1\<lparr>generated_dnas :=
                   insert (generate_dna_hash selected_layers) (generated_dnas s1)\<rparr>)
       \<and> generate_character env layers_order edition max_attempts s = (Inl e, s2)
       \<and> generated_dnas s2 = insert (generate_dna_hash selected_layers) (generated_dnas s)
       \<and> (\<forall>(env' :: 'b env) layers_order' edition' max_attempts' u m u'.
            generated_dnas s2 \<subseteq> generated_dnas u
            \<longrightarrow> generate_character env' layers_order' edition' max_attempts' u = (Inr m, u')
            \<longrightarrow> md_dna m \<noteq> generate_dna_hash selected_layers)"
proof -
  have reg: "generated_dnas s1 = generated_dnas s"
    using assms(1) by (rule select_layers_registry)
  from assms(3) obtain n where n: "nat max_attempts = Suc n"
    by (cases "nat max_attempts") auto
  have run: "generate_character env layers_order edition max_attempts s
         = produce env layers_order selected_layers (generate_dna_hash selected_layers) edition
             (s1\<lparr>generated_dnas :=
                   insert (generate_dna_hash selected_layers) (generated_dnas s1)\<rparr>)"
    using assms(1,2) reg n by (simp add: generate_character_def Let_def)
  have fail: "generate_character env layers_order edition max_attempts s = (Inl e, s2)"
    using run assms(4) by (simp add: produce_def)
  have kept: "generated_dnas s2 = insert (generate_dna_hash selected_layers) (generated_dnas s)"
    using composite_registry[OF assms(4)] reg by simp
  have all_later: "\<forall>(env' :: 'b env) layers_order' edition' max_attempts' u m u'.
            generated_dnas s2 \<subseteq> generated_dnas u
            \<longrightarrow> generate_character env' layers_order' edition' max_attempts' u = (Inr m, u')
            \<longrightarrow> md_dna m \<noteq> generate_dna_hash selected_layers"
  proof (intro allI impI)
    fix env' :: "'b env" and layers_order' edition' max_attempts' u m u'
    assume sub: "generated_dnas s2 \<subseteq> generated_dnas u"
      and gen: "generate_character env' layers_order' edition' max_attempts' u = (Inr m, u')"
    from generate_character_success[OF gen] sub kept
    show "md_dna m \<noteq> generate_dna_hash selected_layers" by auto
  qed
  from conjI[OF run conjI[OF fail conjI[OF kept all_later]]] show ?thesis .
qed

theorem failed_compositing_keeps_dna_witness:
  "generate_character broken_env [''Background'', ''Body'', ''Eyes''] 2 2 (world0\<lparr>rand_pos := 2\<rparr>)
     = (Inl (ValueError ''Decompressed Data Too Large''), after_refusal)
   \<and> generated_dnas after_refusal = {generate_dna_hash big_selection}
   \<and> generate_character demo_env [''Background'', ''Body'', ''Eyes''] 3 2 after_refusal
     = (Inr third_metadata, after_third)
   \<and> md_dna third_metadata \<noteq> generate_dna_hash big_selection"
proof -
  have sel: "select_layers broken_env [''Background'', ''Body'', ''Eyes''] []
      (world0\<lparr>rand_pos := 2\<rparr>) = (Inr big_selection, world0\<lparr>rand_pos := 4\<rparr>)"
    by (simp add: broken_select_big world0_def del: select_layers.simps)
  have fresh: "generate_dna_hash big_selection \<notin> generated_dnas (world0\<lparr>rand_pos := 2\<rparr>)"
    by (simp add: world0_def)
  have comp: "composite broken_env big_selection 2
      (world0\<lparr>rand_pos := 4,
              generated_dnas := insert (generate_dna_hash big_selection)
                                  (generated_dnas (world0\<lparr>rand_pos := 4\<rparr>))\<rparr>)
      = (Inl (ValueError ''Decompressed Data Too Large''), after_refusal)"
    by (simp add: run_defs after_refusal_def demo_defs path_defs)
  have later: "generate_character demo_env [''Background'', ''Body'', ''Eyes''] 3 2 after_refusal
     = (Inr third_metadata, after_third)"
    apply (simp add: generate_character_def demo_select eval_nat_numeral dna_demo dna_big
        after_refusal_def third_metadata_def demo_metadata_def after_third_def
        del: select_layers.simps)
    apply (simp add: run_defs demo_defs path_defs insert_commute)
    done
  have sub: "generated_dnas after_refusal \<subseteq> generated_dnas after_refusal" by simp
  have pos: "(0::int) < 2" by simp
  note kept = failed_compositing_keeps_dna[OF sel fresh pos comp]
  have a: "generate_character broken_env [''Background'', ''Body'', ''Eyes''] 2 2
      (world0\<lparr>rand_pos := 2\<rparr>) = (Inl (ValueError ''Decompressed Data Too Large''), after_refusal)"
    by (rule kept[THEN conjunct2, THEN conjunct1])
  have b: "generated_dnas after_refusal = {generate_dna_hash big_selection}"
    using kept[THEN conjunct2, THEN conjunct2, THEN conjunct1] by (simp add: world0_def)
  have c: "md_dna third_metadata \<noteq> generate_dna_hash big_selection"
    by (rule kept[THEN conjunct2, THEN conjunct2, THEN conjunct2, rule_format, OF sub later])
  from a b later c show ?thesis by simp
qed


subsection \<open>The registry after a collection run\<close>

text \<open>
  Claim C2 says that after a run that produced \<open>N\<close> editions the registry holds exactly
  \<open>N\<close> fingerprints. It fails when the compositing of a later edition raises
  \<^verbatim>\<open>ValueError\<close>, which \<^verbatim>\<open>generate_collection\<close> catches like the exhaustion error: the
  run returns one record and the registry, empty at the start, holds two fingerprints.
\<close>
theorem registry_count_counterexample:
  "generate_collection broken_env world0 = (Inr [demo_metadata], after_broken_run)
   \<and> length [demo_metadata] = 1
   \<and> generated_dnas world0 = {}
   \<and> card (generated_dnas after_broken_run) = 2"
proof -
  have "card (generated_dnas after_broken_run) = 2"
    by (simp add: after_broken_run_def dna_demo dna_big)
  with broken_run show ?thesis by (simp add: world0_def)
qed

text \<open>
  Claim C2, amended. After a collection run that returns \<open>N\<close> records, the records have
  pairwise distinct fingerprints, none of which was registered before the run and all of
  which are registered after it; the registry never shrinks, neither over the run nor over
  any single call of \<^verbatim>\<open>generate_character\<close>. Besides the old fingerprints and those of
  the records it holds at most one more, and then that one is the fingerprint of an attempt
  for edition \<open>N + 1\<close> that was registered and whose compositing or metadata raised
  \<^verbatim>\<open>ValueError\<close>; it holds no other when every requested edition was produced. So a run
  from an empty registry ends with \<open>N\<close> or \<open>N + 1\<close> fingerprints, and with exactly \<open>N\<close>
  when it produced every edition.
\<close>

theorem registry_after_collection:
  assumes "generate_collection env s = (Inr produced, s')"
  shows "distinct (map md_dna produced)
       \<and> set (map md_dna produced) \<inter> generated_dnas s = {}
       \<and> generated_dnas s \<union> set (map md_dna produced) \<subseteq> generated_dnas s'
       \<and> (generated_dnas s' = generated_dnas s \<union> set (map md_dna produced)
          \<or> (\<exists>dna msg u.
                failed_attempt env
                  (case cfg_layers_order (config env) of None \<Rightarrow> [] | Some l \<Rightarrow> l)
                  (int (length produced) + 1)
                  (generated_dnas s \<union> set (map md_dna produced)) dna (ValueError msg) u
                \<and> generated_dnas s'
                    = insert dna (generated_dnas s \<union> set (map md_dna produced))))
       \<and> (\<forall>generation_settings total_chars.
            cfg_generation_settings (config env) = Some generation_settings
            \<longrightarrow> total_characters generation_settings = Some total_chars
            \<longrightarrow> length produced = nat total_chars
            \<longrightarrow> generated_dnas s' = generated_dnas s \<union> set (map md_dna produced)
                \<and> (generated_dnas s = {} \<longrightarrow> card (generated_dnas s') = length produced))
       \<and> (generated_dnas s = {}
            \<longrightarrow> length produced \<le> card (generated_dnas s')
                \<and> card (generated_dnas s') \<le> length produced + 1)
       \<and> (\<forall>layers_order edition max_attempts t.
            generated_dnas t
              \<subseteq> generated_dnas (snd (generate_character env layers_order edition max_attempts t)))"
proof -
  define layers_order where
    "layers_order = (case cfg_layers_order (config env) of None \<Rightarrow> [] | Some l \<Rightarrow> l)"
  define base where "base = generated_dnas s \<union> set (map md_dna produced)"
  from assms obtain generation_settings total_chars max_attempts where
    cfg: "cfg_generation_settings (config env) = Some generation_settings"
      "total_characters generation_settings = Some total_chars"
    and run: "editions env layers_order max_attempts [1..total_chars] [] s = (Inr produced, s')"
    unfolding layers_order_def
    by (auto simp: generate_collection_def config_get_def Let_def split: option.splits)
  from editions_registry_dna[OF run] have
    len: "length produced \<le> length [1..total_chars]"
    and dist: "distinct (map md_dna produced)"
    and new: "set (map md_dna produced) \<inter> generated_dnas s = {}"
    and reg: "generated_dnas s' = base
       \<or> (\<exists>dna msg u.
             length produced < length [1..total_chars]
             \<and> failed_attempt env layers_order ([1..total_chars] ! length produced) base dna
                   (ValueError msg) u
             \<and> generated_dnas s' = generated_dnas u)"
    unfolding base_def by auto
  have count: "card (set (map md_dna produced)) = length produced"
    using distinct_card[OF dist] by simp
  have extra: "generated_dnas s' = base
       \<or> (\<exists>dna msg u.
             length produced < length [1..total_chars]
             \<and> failed_attempt env layers_order (int (length produced) + 1) base dna
                   (ValueError msg) u
             \<and> dna \<notin> base
             \<and> generated_dnas s' = insert dna base)"
  proof -
    have "generated_dnas s' = base
       \<or> (\<exists>dna msg u.
             length produced < length [1..total_chars]
             \<and> failed_attempt env layers_order (int (length produced) + 1) base dna
                   (ValueError msg) u
             \<and> dna \<notin> base
             \<and> generated_dnas s' = insert dna base)"
      if "length produced < length [1..total_chars]"
        and "failed_attempt env layers_order ([1..total_chars] ! length produced) base dna
               (ValueError msg) u"
        and "generated_dnas s' = generated_dnas u"
      for dna msg u
    proof -
      from that(1) have "1 + int (length produced) \<le> total_chars" by simp
      then have "[1..total_chars] ! length produced = int (length produced) + 1"
        by (simp add: nth_upto)
      with that(2) have fa: "failed_attempt env layers_order (int (length produced) + 1) base
          dna (ValueError msg) u"
        by simp
      from failed_attempt_registry[OF fa] that(3)
      have "dna \<notin> base" "generated_dnas s' = insert dna base" by simp_all
      with that(1) fa show ?thesis by blast
    qed
    with reg show ?thesis by blast
  qed
  have grows: "generated_dnas s \<union> set (map md_dna produced) \<subseteq> generated_dnas s'"
    using extra unfolding base_def by auto
  have upto: "generated_dnas s' = generated_dnas s \<union> set (map md_dna produced)
          \<or> (\<exists>dna msg u.
                failed_attempt env
                  (case cfg_layers_order (config env) of None \<Rightarrow> [] | Some l \<Rightarrow> l)
                  (int (length produced) + 1)
                  (generated_dnas s \<union> set (map md_dna produced)) dna (ValueError msg) u
                \<and> generated_dnas s'
                    = insert dna (generated_dnas s \<union> set (map md_dna produced)))"
    using extra unfolding base_def layers_order_def by blast
  have complete: "generated_dnas s' = generated_dnas s \<union> set (map md_dna produced)
                \<and> (generated_dnas s = {} \<longrightarrow> card (generated_dnas s') = length produced)"
    if "cfg_generation_settings (config env) = Some gs" "total_characters gs = Some t"
      "length produced = nat t" for gs t
  proof -
    from that cfg have "length produced = length [1..total_chars]" by simp
    with extra have "generated_dnas s' = generated_dnas s \<union> set (map md_dna produced)"
      unfolding base_def by auto
    with count show ?thesis by simp
  qed
  have bounds: "length produced \<le> card (generated_dnas s')
                \<and> card (generated_dnas s') \<le> length produced + 1"
    if "generated_dnas s = {}"
  proof -
    from extra that consider "generated_dnas s' = set (map md_dna produced)"
      | d where "generated_dnas s' = insert d (set (map md_dna produced))"
      unfolding base_def by auto
    then show ?thesis
    proof cases
      case 1
      with count show ?thesis by simp
    next
      case 2
      with count show ?thesis by (simp add: card_insert_if)
    qed
  qed
  have steps: "\<forall>layers_order edition max_attempts t.
            generated_dnas t
              \<subseteq> generated_dnas (snd (generate_character env layers_order edition max_attempts t))"
    by (intro allI) (rule generate_character_grows)
  have complete_all: "\<forall>generation_settings total_chars.
            cfg_generation_settings (config env) = Some generation_settings
            \<longrightarrow> total_characters generation_settings = Some total_chars
            \<longrightarrow> length produced = nat total_chars
            \<longrightarrow> generated_dnas s' = generated_dnas s \<union> set (map md_dna produced)
                \<and> (generated_dnas s = {} \<longrightarrow> card (generated_dnas s') = length produced)"
    by (intro allI impI) (rule complete)
  have bounds_imp: "generated_dnas s = {}
            \<longrightarrow> length produced \<le> card (generated_dnas s')
                \<and> card (generated_dnas s') \<le> length produced + 1"
    by (intro impI) (rule bounds)
  from conjI[OF dist conjI[OF new conjI[OF grows conjI[OF upto
        conjI[OF complete_all conjI[OF bounds_imp steps]]]]]]
  show ?thesis .
qed

theorem registry_after_collection_witness:
  "generate_collection twin_env world0 = (Inr [demo_metadata, second_metadata], after_second)
   \<and> distinct (map md_dna [demo_metadata, second_metadata])
   \<and> generated_dnas world0 = {}
   \<and> card (generated_dnas after_second) = length [demo_metadata, second_metadata]
   \<and> generate_collection twin_env seeded_world
       = (Inr [demo_metadata, second_metadata],
          after_second
            \<lparr>generated_dnas :=
               {generate_dna_hash big_selection, generate_dna_hash demo_selection,
                generate_dna_hash sea_selection}\<rparr>)
   \<and> generated_dnas seeded_world = {generate_dna_hash big_selection}
   \<and> set (map md_dna [demo_metadata, second_metadata]) \<inter> generated_dnas seeded_world = {}
   \<and> generated_dnas seeded_world \<union> set (map md_dna [demo_metadata, second_metadata])
       \<subseteq> {generate_dna_hash big_selection, generate_dna_hash demo_selection,
           generate_dna_hash sea_selection}
   \<and> generate_collection broken_env world0 = (Inr [demo_metadata], after_broken_run)
   \<and> (\<exists>msg u. failed_attempt broken_env [''Background'', ''Body'', ''Eyes''] 2
                 {generate_dna_hash demo_selection} (generate_dna_hash big_selection)
                 (ValueError msg) u)"
proof -
  note empty = registry_after_collection[OF twin_run]
  note seeded = registry_after_collection[OF twin_run_seeded]
  note broken = registry_after_collection[OF broken_run]
  have cfg: "cfg_generation_settings (config twin_env)
      = Some \<lparr>total_characters = Some 2, max_generation_attempts = Some 2\<rparr>"
    by (simp add: twin_env_def demo_env_def demo_config_def)
  have total: "total_characters \<lparr>total_characters = Some 2, max_generation_attempts = Some 2\<rparr>
      = Some 2"
    by simp
  have all: "length [demo_metadata, second_metadata] = nat 2" by simp
  have start: "generated_dnas world0 = {}" by (simp add: world0_def)
  note complete = empty[THEN conjunct2, THEN conjunct2, THEN conjunct2, THEN conjunct2,
      THEN conjunct1, rule_format, OF cfg total all]
  have a: "distinct (map md_dna [demo_metadata, second_metadata])"
    by (rule empty[THEN conjunct1])
  have b: "card (generated_dnas after_second) = length [demo_metadata, second_metadata]"
    by (rule complete[THEN conjunct2, rule_format, OF start])
  have seed: "generated_dnas seeded_world = {generate_dna_hash big_selection}"
    by (simp add: seeded_world_def world0_def)
  have c: "set (map md_dna [demo_metadata, second_metadata]) \<inter> generated_dnas seeded_world = {}"
    by (rule seeded[THEN conjunct2, THEN conjunct1])
  have d: "generated_dnas seeded_world \<union> set (map md_dna [demo_metadata, second_metadata])
       \<subseteq> {generate_dna_hash big_selection, generate_dna_hash demo_selection,
           generate_dna_hash sea_selection}"
    using seeded[THEN conjunct2, THEN conjunct2, THEN conjunct1] by simp
  have regs: "generated_dnas after_broken_run
      = {generate_dna_hash demo_selection, generate_dna_hash big_selection}"
    by (simp add: after_broken_run_def)
  have base: "generated_dnas world0 \<union> set (map md_dna [demo_metadata])
      = {generate_dna_hash demo_selection}"
    by (simp add: world0_def demo_metadata_def)
  have order: "(case cfg_layers_order (config broken_env) of None \<Rightarrow> [] | Some l \<Rightarrow> l)
      = [''Background'', ''Body'', ''Eyes'']"
    by (simp add: broken_env_def demo_env_def demo_config_def)
  have ed: "int (length [demo_metadata]) + 1 = 2" by simp
  have neq: "generate_dna_hash big_selection \<noteq> generate_dna_hash demo_selection"
    by (simp add: dna_demo dna_big)
  note extra = broken[THEN conjunct2, THEN conjunct2, THEN conjunct2, THEN conjunct1,
      unfolded regs base order ed]
  have e: "\<exists>msg u. failed_attempt broken_env [''Background'', ''Body'', ''Eyes''] 2
                 {generate_dna_hash demo_selection} (generate_dna_hash big_selection)
                 (ValueError msg) u"
    using extra
  proof
    assume "{generate_dna_hash demo_selection, generate_dna_hash big_selection}
        = {generate_dna_hash demo_selection}"
    with neq show ?thesis by auto
  next
    assume "\<exists>dna msg u.
        failed_attempt broken_env [''Background'', ''Body'', ''Eyes''] 2
          {generate_dna_hash demo_selection} dna (ValueError msg) u
        \<and> {generate_dna_hash demo_selection, generate_dna_hash big_selection}
            = insert dna {generate_dna_hash demo_selection}"
    then obtain dna msg u where
      fa: "failed_attempt broken_env [''Background'', ''Body'', ''Eyes''] 2
          {generate_dna_hash demo_selection} dna (ValueError msg) u"
      and eq: "{generate_dna_hash demo_selection, generate_dna_hash big_selection}
            = insert dna {generate_dna_hash demo_selection}"
      by blast
    from eq neq have "dna = generate_dna_hash big_selection" by auto
    with fa show ?thesis by blast
  qed
  from twin_run a start b twin_run_seeded seed c d broken_run e show ?thesis by simp
qed


subsection \<open>Omitted layers and the attribute list\<close>

text \<open>
  Claim C8 says that the attribute list has exactly one entry per layer present. With the
  configured order \<^verbatim>\<open>[Background, Body, Body]\<close> the selection holds the two layers
  \<^verbatim>\<open>Background\<close> and \<^verbatim>\<open>Body\<close>, and the attribute list has three entries, two of them for
  \<^verbatim>\<open>Body\<close>.
\<close>
theorem attributes_repeat_counterexample:
  "select_layers demo_env [''Background'', ''Body'', ''Body''] [] world0
     = (Inr demo_selection, world0\<lparr>rand_pos := 3\<rparr>)
   \<and> fst (generate_character demo_env [''Background'', ''Body'', ''Body''] 1 2 world0)
     = Inr (demo_metadata
             \<lparr>md_attributes :=
                [(''Background'', ''sky''), (''Body'', ''cat''), (''Body'', ''cat'')]\<rparr>)"
  by (simp add: run_defs eval_nat_numeral demo_metadata_def demo_defs path_defs)

text \<open>
  Claim C8, amended. A layer whose directory is absent or lists no eligible file yields no
  selection, not an error, and is left out of the selection and of the attributes. The
  selection holds exactly the present layers of the configured order, and the attribute
  list has one entry for each occurrence of a present layer in the configured order, in
  that order: exactly one entry per layer present when the configured order repeats no
  name.
\<close>

theorem attributes_follow_layer_order:
  assumes "generate_character env layers_order edition max_attempts s = (Inr m, s')"
  shows "map fst (md_attributes m) = filter (present env) layers_order
       \<and> (distinct layers_order \<longrightarrow> distinct (map fst (md_attributes m)))
       \<and> (\<exists>selected_layers.
            md_attributes m = attributes_of layers_order selected_layers
            \<and> fst ` set selected_layers = {layer \<in> set layers_order. present env layer})
       \<and> (\<forall>layer_name t.
            (\<not> path_exists env (layer_dir_of env layer_name)
             \<or> (\<exists>entries. listdir env (layer_dir_of env layer_name) = Inr entries
                          \<and> filter eligible entries = []))
            \<longrightarrow> select_layer_file env layer_name t = (Inr None, t)
                \<and> layer_name \<notin> fst ` set (md_attributes m))"
proof -
  from assms obtain selected_layers s0 s1 where
    sel: "select_layers env layers_order [] s0 = (Inr selected_layers, s1)"
    and attrs: "md_attributes m = attributes_of layers_order selected_layers"
    unfolding generate_character_def by (blast dest: attempts_attributes)
  have "set (map fst selected_layers) = set (stored_order env layers_order [])"
    using select_layers_keys[OF sel] by simp
  then have keys: "fst ` set selected_layers = {layer \<in> set layers_order. present env layer}"
    by (simp add: set_stored_order)
  have "filter (\<lambda>layer. layer \<in> fst ` set selected_layers) layers_order
      = filter (present env) layers_order"
    unfolding keys by (rule filter_cong) auto
  then have traits: "map fst (md_attributes m) = filter (present env) layers_order"
    unfolding attrs attributes_of_keys .
  have once: "distinct layers_order \<longrightarrow> distinct (map fst (md_attributes m))"
    unfolding traits by simp
  have chosen: "\<exists>selected_layers.
            md_attributes m = attributes_of layers_order selected_layers
            \<and> fst ` set selected_layers = {layer \<in> set layers_order. present env layer}"
    using attrs keys by blast
  have absent: "\<forall>layer_name t.
            (\<not> path_exists env (layer_dir_of env layer_name)
             \<or> (\<exists>entries. listdir env (layer_dir_of env layer_name) = Inr entries
                          \<and> filter eligible entries = []))
            \<longrightarrow> select_layer_file env layer_name t = (Inr None, t)
                \<and> layer_name \<notin> fst ` set (md_attributes m)"
  proof (intro allI impI)
    fix layer_name t
    assume gone: "\<not> path_exists env (layer_dir_of env layer_name)
             \<or> (\<exists>entries. listdir env (layer_dir_of env layer_name) = Inr entries
                          \<and> filter eligible entries = [])"
    then have "\<not> present env layer_name" by (auto simp: present_def)
    then have "layer_name \<notin> set (map fst (md_attributes m))"
      unfolding traits by simp
    then have "layer_name \<notin> fst ` set (md_attributes m)" by simp
    with select_layer_file_none[OF gone]
    show "select_layer_file env layer_name t = (Inr None, t)
                \<and> layer_name \<notin> fst ` set (md_attributes m)"
      by simp
  qed
  from conjI[OF traits conjI[OF once conjI[OF chosen absent]]] show ?thesis .
qed

theorem attributes_follow_layer_order_witness:
  "generate_character demo_env [''Background'', ''Body'', ''Eyes''] 1 2 world0
     = (Inr demo_metadata, first_character)
   \<and> map fst (md_attributes demo_metadata) = [''Background'', ''Body'']
   \<and> filter (present demo_env) [''Background'', ''Body'', ''Eyes''] = [''Background'', ''Body'']
   \<and> distinct (map fst (md_attributes demo_metadata))
   \<and> select_layer_file demo_env ''Eyes'' world0 = (Inr None, world0)
   \<and> ''Eyes'' \<notin> fst ` set (md_attributes demo_metadata)"
proof -
  have run: "generate_character demo_env [''Background'', ''Body'', ''Eyes''] 1 2 world0
     = (Inr demo_metadata, first_character)"
    by (simp add: run_defs eval_nat_numeral demo_metadata_def first_character_def
        after_first_def demo_defs path_defs)
  have order: "distinct [''Background'', ''Body'', ''Eyes'']" by simp
  have eyes: "\<not> path_exists demo_env (layer_dir_of demo_env ''Eyes'')
      \<or> (\<exists>entries. listdir demo_env (layer_dir_of demo_env ''Eyes'') = Inr entries
                   \<and> filter eligible entries = [])"
    by (simp add: demo_defs path_defs)
  have shown: "filter (present demo_env) [''Background'', ''Body'', ''Eyes'']
      = [''Background'', ''Body'']"
    by (simp add: present_def demo_defs path_defs)
  note all = attributes_follow_layer_order[OF run]
  have a: "map fst (md_attributes demo_metadata) = [''Background'', ''Body'']"
    using all[THEN conjunct1] shown by simp
  have b: "distinct (map fst (md_attributes demo_metadata))"
    by (rule all[THEN conjunct2, THEN conjunct1, rule_format, OF order])
  note c = all[THEN conjunct2, THEN conjunct2, THEN conjunct2, rule_format, OF eyes, of world0]
  from run a shown b c show ?thesis by simp
qed

subsection \<open>The fingerprint and the order of the dictionary\<close>

text \<open>
  Claim C1 says that the fingerprint does not change when the storage order of the
  selection is permuted. The two layers \<^verbatim>\<open>A\<close> and \<^verbatim>\<open>B\<close> selected under the configured
  orders \<^verbatim>\<open>[A, B]\<close> and \<^verbatim>\<open>[B, A]\<close> give dictionaries with the same mapping, stored in
  opposite orders, and two different fingerprints.
\<close>
theorem dna_order_counterexample:
  "select_layers ab_env [''A'', ''B''] [] world0 = (Inr ab_selection, world0\<lparr>rand_pos := 2\<rparr>)
   \<and> select_layers ab_env [''B'', ''A''] [] world0 = (Inr ba_selection, world0\<lparr>rand_pos := 2\<rparr>)
   \<and> ba_selection = rev ab_selection
   \<and> map_of ab_selection = map_of ba_selection
   \<and> generate_dna_hash ab_selection = ''9de81ec82f4248875d69ff3a2e1d9d0a8a35a1c9''
   \<and> generate_dna_hash ba_selection = ''0f833d446d4fdfb0bd4631aab4e459c66f7d1555''
   \<and> generate_dna_hash ab_selection \<noteq> generate_dna_hash ba_selection"
proof -
  have a: "select_layers ab_env [''A'', ''B''] [] world0
      = (Inr ab_selection, world0\<lparr>rand_pos := 2\<rparr>)"
    by (simp add: run_defs ab_env_def ab_selection_def a_file_def b_file_def demo_defs path_defs)
  have b: "select_layers ab_env [''B'', ''A''] [] world0
      = (Inr ba_selection, world0\<lparr>rand_pos := 2\<rparr>)"
    by (simp add: run_defs ab_env_def ba_selection_def a_file_def b_file_def demo_defs path_defs)
  have c: "ba_selection = rev ab_selection"
    by (simp add: ab_selection_def ba_selection_def)
  have d: "map_of ab_selection = map_of ba_selection"
    by (auto simp: fun_eq_iff ab_selection_def ba_selection_def)
  have e: "generate_dna_hash ab_selection \<noteq> generate_dna_hash ba_selection"
    by (simp add: dna_ab dna_ba)
  from conjI[OF a conjI[OF b conjI[OF c conjI[OF d conjI[OF dna_ab conjI[OF dna_ba e]]]]]]
  show ?thesis .
qed

text \<open>
  Claim C1, amended. \<^verbatim>\<open>_generate_dna_hash\<close> visits the layers in the storage order of the
  dictionary. For the selections that the selection loop builds from one configured layer
  order over one catalogue, whatever the random draws, the storage order is the same (the
  present layers in configured order), so two of them with the same mapping have the same
  fingerprint.
\<close>

theorem dna_of_selections:
  assumes "select_layers env layers_order [] s1 = (Inr selected1, t1)"
    and "select_layers (env\<lparr>rand := r\<rparr>) layers_order [] s2 = (Inr selected2, t2)"
    and "map_of selected1 = map_of selected2"
  shows "map fst selected1 = stored_order env layers_order []
       \<and> map fst selected2 = stored_order env layers_order []
       \<and> generate_dna_hash selected1 = generate_dna_hash selected2"
proof -
  have k1: "map fst selected1 = stored_order env layers_order []"
    using select_layers_keys[OF assms(1)] by simp
  have k2: "map fst selected2 = stored_order env layers_order []"
    using select_layers_keys[OF assms(2)] by (simp add: stored_order_rand)
  have "distinct (map fst selected1)"
    unfolding k1 by (rule distinct_stored_order) simp
  with k1 k2 assms(3) have "selected1 = selected2"
    by (intro same_keys_same_map) simp_all
  with k1 k2 show ?thesis by simp
qed

theorem dna_of_selections_witness:
  "select_layers broken_env [''Background'', ''Body'', ''Eyes''] [] world0
     = (Inr demo_selection, world0\<lparr>rand_pos := 2\<rparr>)
   \<and> select_layers (broken_env\<lparr>rand := (\<lambda>i. 0)\<rparr>) [''Background'', ''Body'', ''Eyes''] []
        (world0\<lparr>rand_pos := 7\<rparr>)
     = (Inr demo_selection, world0\<lparr>rand_pos := 9\<rparr>)
   \<and> map fst demo_selection = stored_order broken_env [''Background'', ''Body'', ''Eyes''] []
   \<and> generate_dna_hash demo_selection = generate_dna_hash demo_selection"
proof -
  have a: "select_layers broken_env [''Background'', ''Body'', ''Eyes''] [] world0
     = (Inr demo_selection, world0\<lparr>rand_pos := 2\<rparr>)"
    by (simp add: run_defs demo_defs path_defs)
  have b: "select_layers (broken_env\<lparr>rand := (\<lambda>i. 0)\<rparr>) [''Background'', ''Body'', ''Eyes''] []
        (world0\<lparr>rand_pos := 7\<rparr>)
     = (Inr demo_selection, world0\<lparr>rand_pos := 9\<rparr>)"
    by (simp add: run_defs demo_defs path_defs)
  have c: "map_of demo_selection = map_of demo_selection" by simp
  note all = dna_of_selections[OF a b c]
  from conjI[OF a conjI[OF b conjI[OF all[THEN conjunct1]
        all[THEN conjunct2, THEN conjunct2]]]]
  show ?thesis .
qed


end
